theory Spec2Isabelle
  imports Main "HOL-Library.Sublist"
begin

section \<open>Fork synchronisation: configuration validation, conflict resolver, sync controller\<close>

text \<open>
  A shallow embedding of the JavaScript sources: \<^verbatim>\<open>validateConfig\<close> (the configuration
  module with the \<^verbatim>\<open>owner/repo:branch\<close> identifiers), \<^verbatim>\<open>initializeLLMClient\<close>
  (utils/llm-client.js), \<^verbatim>\<open>resolveConflicts\<close> (the conflict-resolver module) and the
  controller functions \<^verbatim>\<open>startSync\<close>, \<^verbatim>\<open>syncRepository\<close>,
  \<^verbatim>\<open>initializeRepository\<close>, \<^verbatim>\<open>checkForUpstreamChanges\<close> and
  \<^verbatim>\<open>mergeUpstreamChanges\<close>. The controller is the revision whose \<^verbatim>\<open>syncRepository\<close>
  takes the name of the repository, \<^verbatim>\<open>owner/repo\<close>, and the account with its two
  branches; a later revision of the same functions stands next to the controller's tests.

  JavaScript strings are modelled as \<^typ>\<open>string\<close>; a thrown \<^verbatim>\<open>Error\<close> is identified with
  its \<^verbatim>\<open>message\<close>. Calls of the loggers are not modelled: they return nothing and
  decide no branch.
\<close>

subsection \<open>Strings\<close>

text \<open>\<^verbatim>\<open>String.prototype.includes\<close>: \<open>sub\<close> occurs in \<open>s\<close> as a contiguous run.\<close>

fun js_includes :: "string \<Rightarrow> string \<Rightarrow> bool" where
  "js_includes [] sub = (sub = [])"
| "js_includes (c # cs) sub = (prefix sub (c # cs) \<or> js_includes cs sub)"

text \<open>\<^verbatim>\<open>String.prototype.split\<close> with a one-character separator: never an empty array.\<close>

fun split_on :: "char \<Rightarrow> string \<Rightarrow> string list" where
  "split_on sep [] = [[]]"
| "split_on sep (c # cs) =
     (if c = sep then [] # split_on sep cs
      else (case split_on sep cs of
              [] \<Rightarrow> [[c]]
            | seg # segs \<Rightarrow> (c # seg) # segs))"

text \<open>An array element read by destructuring: \<^verbatim>\<open>undefined\<close> (here \<open>None\<close>) past the end.\<close>

fun nth_opt :: "'a list \<Rightarrow> nat \<Rightarrow> 'a option" where
  "nth_opt [] n = None"
| "nth_opt (x # xs) 0 = Some x"
| "nth_opt (x # xs) (Suc n) = nth_opt xs n"

text \<open>Truthiness of a value that is a string or \<^verbatim>\<open>undefined\<close>.\<close>

fun truthy :: "string option \<Rightarrow> bool" where
  "truthy None = False"
| "truthy (Some s) = (s \<noteq> [])"

text \<open>A string-or-undefined value inside a template literal.\<close>

fun js_str :: "string option \<Rightarrow> string" where
  "js_str None = ''undefined''"
| "js_str (Some s) = s"

text \<open>
  A character of the model is a code unit below 256. Of these, \<^verbatim>\<open>trimEnd\<close> removes from
  the end of a string the white space (tab, vertical tab, form feed, space and the
  no-break space U+00A0) and the line terminators (line feed, carriage return).
\<close>

definition js_space :: "char \<Rightarrow> bool" where
  "js_space c =
     (c \<in> {CHR 0x09, CHR 0x0A, CHR 0x0B, CHR 0x0C, CHR 0x0D, CHR 0x20, CHR 0xA0})"

definition trimEnd :: "string \<Rightarrow> string" where
  "trimEnd s = rev (dropWhile js_space (rev s))"

text \<open>
  \<^verbatim>\<open>toLowerCase\<close> on the code units below 256: the letters A to Z, and the capital
  letters U+00C0 to U+00DE without the multiplication sign U+00D7, each 32 below its small
  letter.
\<close>

definition upper_letters :: string where
  "upper_letters =
     ''ABCDEFGHIJKLMNOPQRSTUVWXYZ'' @
     [CHR 0xC0, CHR 0xC1, CHR 0xC2, CHR 0xC3, CHR 0xC4, CHR 0xC5, CHR 0xC6, CHR 0xC7,
      CHR 0xC8, CHR 0xC9, CHR 0xCA, CHR 0xCB, CHR 0xCC, CHR 0xCD, CHR 0xCE, CHR 0xCF,
      CHR 0xD0, CHR 0xD1, CHR 0xD2, CHR 0xD3, CHR 0xD4, CHR 0xD5, CHR 0xD6, CHR 0xD8,
      CHR 0xD9, CHR 0xDA, CHR 0xDB, CHR 0xDC, CHR 0xDD, CHR 0xDE]"

definition lower_letters :: string where
  "lower_letters =
     ''abcdefghijklmnopqrstuvwxyz'' @
     [CHR 0xE0, CHR 0xE1, CHR 0xE2, CHR 0xE3, CHR 0xE4, CHR 0xE5, CHR 0xE6, CHR 0xE7,
      CHR 0xE8, CHR 0xE9, CHR 0xEA, CHR 0xEB, CHR 0xEC, CHR 0xED, CHR 0xEE, CHR 0xEF,
      CHR 0xF0, CHR 0xF1, CHR 0xF2, CHR 0xF3, CHR 0xF4, CHR 0xF5, CHR 0xF6, CHR 0xF8,
      CHR 0xF9, CHR 0xFA, CHR 0xFB, CHR 0xFC, CHR 0xFD, CHR 0xFE]"

definition lower_char :: "char \<Rightarrow> char" where
  "lower_char c =
     (case map_of (zip upper_letters lower_letters) c of
        Some l \<Rightarrow> l
      | None \<Rightarrow> c)"

definition toLowerCase :: "string \<Rightarrow> string" where
  "toLowerCase s = map lower_char s"

text \<open>A number inside a template literal: its decimal digits.\<close>

definition digit :: "nat \<Rightarrow> char" where
  "digit d = ''0123456789'' ! d"

fun digits_of :: "nat \<Rightarrow> nat \<Rightarrow> string" where
  "digits_of 0 n = []"
| "digits_of (Suc fuel) n =
     (if n < 10 then [digit n]
      else digits_of fuel (n div 10) @ [digit (n mod 10)])"

definition string_of_nat :: "nat \<Rightarrow> string" where
  "string_of_nat n = digits_of (Suc n) n"

subsection \<open>The identifier patterns of validateConfig\<close>

text \<open>
  The two regular expressions of the configuration modules use character classes that
  exclude one character, literal characters and \<^verbatim>\<open>+\<close>, between \<^verbatim>\<open>^\<close> and
  \<^verbatim>\<open>$\<close>. \<open>rx_test\<close> is \<^verbatim>\<open>RegExp.prototype.test\<close> for such an anchored pattern:
  \<open>many a s\<close> lists what is left of \<open>s\<close> after one or more characters accepted by \<open>a\<close>.
\<close>

datatype atom = Lit char | Except char

datatype rx = One atom | Many atom

fun atom_ok :: "atom \<Rightarrow> char \<Rightarrow> bool" where
  "atom_ok (Lit c) x = (x = c)"
| "atom_ok (Except c) x = (x \<noteq> c)"

fun many :: "atom \<Rightarrow> string \<Rightarrow> string list" where
  "many a [] = []"
| "many a (x # xs) = (if atom_ok a x then xs # many a xs else [])"

fun rx_test :: "rx list \<Rightarrow> string \<Rightarrow> bool" where
  "rx_test [] s = (s = [])"
| "rx_test (One a # rs) s = (case s of [] \<Rightarrow> False | x # xs \<Rightarrow> atom_ok a x \<and> rx_test rs xs)"
| "rx_test (Many a # rs) s = list_ex (rx_test rs) (many a s)"

text \<open>\<^verbatim>\<open>/^[^/]+\/[^/]+:[^:]+$/\<close>, the pattern of the \<^verbatim>\<open>upstream\<close> and \<^verbatim>\<open>fork\<close> fields.\<close>

definition repoBranchRegex :: "rx list" where
  "repoBranchRegex =
     [Many (Except CHR ''/''), One (Lit CHR ''/''), Many (Except CHR ''/''),
      One (Lit CHR '':''), Many (Except CHR '':'')]"

text \<open>\<^verbatim>\<open>/^[^/]+\/[^/]+$/\<close>, the pattern of src/config.js for \<^verbatim>\<open>owner/repo\<close> entries.\<close>

definition repoRegex :: "rx list" where
  "repoRegex = [Many (Except CHR ''/''), One (Lit CHR ''/''), Many (Except CHR ''/'')]"

subsection \<open>validateConfig (configuration module, owner/repo:branch entries)\<close>

text \<open>
  The configuration object as read from the JSON or YAML file. A field that is absent,
  \<^verbatim>\<open>null\<close> or of the wrong kind is \<open>None\<close>; \<open>js_value\<close> keeps apart the
  three cases the checks on \<^verbatim>\<open>upstream\<close> and \<^verbatim>\<open>fork\<close> distinguish.
\<close>

datatype js_value = Undefined | NonString | Str string

record repo_entry =
  upstream :: js_value
  fork :: js_value

datatype email_to = NoRecipient | OneRecipient string | Recipients "string list"

record email_config =
  smtpHost :: "string option"
  smtpPort :: "nat option"
  mail_from :: "string option"
  mail_to :: email_to

record llm_config =
  provider :: "string option"
  model :: "string option"
  apiKey :: "string option"

record account_entry =
  acc_token :: "string option"
  acc_repos :: "repo_entry list option"

record config_file =
  cf_account :: "account_entry option"
  cf_email :: "email_config option"
  cf_schedule :: "string option"
  cf_reposBaseDir :: "string option"
  cf_llm :: "llm_config option"

datatype config_error =
    NoAccountObject
  | MissingToken
  | ReposNotNonEmptyArray
  | BadUpstreamField
  | BadForkField
  | InvalidUpstreamFormat string
  | InvalidForkFormat string
  | MissingEmailField string
  | MissingLlmApiKey
  | LlmConfigRequired

text \<open>\<^verbatim>\<open>!v || typeof v !== 'string'\<close>\<close>

fun missing_or_invalid :: "js_value \<Rightarrow> bool" where
  "missing_or_invalid Undefined = True"
| "missing_or_invalid NonString = True"
| "missing_or_invalid (Str s) = (s = [])"

fun str_of :: "js_value \<Rightarrow> string" where
  "str_of (Str s) = s"
| "str_of _ = []"

text \<open>The body of the loop over \<^verbatim>\<open>account.repos\<close>: the first check that fails throws.\<close>

definition validateRepoEntry :: "repo_entry \<Rightarrow> config_error option" where
  "validateRepoEntry repoEntry =
     (if missing_or_invalid (upstream repoEntry) then Some BadUpstreamField
      else if missing_or_invalid (fork repoEntry) then Some BadForkField
      else if \<not> rx_test repoBranchRegex (str_of (upstream repoEntry))
        then Some (InvalidUpstreamFormat (str_of (upstream repoEntry)))
      else if \<not> rx_test repoBranchRegex (str_of (fork repoEntry))
        then Some (InvalidForkFormat (str_of (fork repoEntry)))
      else None)"

fun validateRepos :: "repo_entry list \<Rightarrow> config_error option" where
  "validateRepos [] = None"
| "validateRepos (repoEntry # rest) =
     (case validateRepoEntry repoEntry of
        Some e \<Rightarrow> Some e
      | None \<Rightarrow> validateRepos rest)"

text \<open>The required email fields, in the order of \<^verbatim>\<open>requiredEmailFields\<close>.\<close>

fun to_truthy :: "email_to \<Rightarrow> bool" where
  "to_truthy NoRecipient = False"
| "to_truthy (OneRecipient s) = (s \<noteq> [])"
| "to_truthy (Recipients rs) = True"

definition validateEmail :: "email_config \<Rightarrow> config_error + email_config" where
  "validateEmail e =
     (if \<not> truthy (smtpHost e) then Inl (MissingEmailField ''smtpHost'')
      else if smtpPort e = None \<or> smtpPort e = Some 0 then Inl (MissingEmailField ''smtpPort'')
      else if \<not> truthy (mail_from e) then Inl (MissingEmailField ''from'')
      else if \<not> to_truthy (mail_to e) then Inl (MissingEmailField ''to'')
      else Inr (case mail_to e of
                  OneRecipient s \<Rightarrow> e\<lparr>mail_to := Recipients [s]\<rparr>
                | _ \<Rightarrow> e))"

definition validateLlm :: "llm_config option \<Rightarrow> config_error + llm_config" where
  "validateLlm l =
     (case l of
        None \<Rightarrow> Inl LlmConfigRequired
      | Some c \<Rightarrow>
          (let c1 = (if \<not> truthy (provider c) then c\<lparr>provider := Some ''openai''\<rparr> else c);
               c2 = (if \<not> truthy (model c1) then c1\<lparr>model := Some ''gpt-4''\<rparr> else c1)
           in if \<not> truthy (apiKey c2) then Inl MissingLlmApiKey else Inr c2))"

definition validateConfig :: "config_file \<Rightarrow> config_error + config_file" where
  "validateConfig config =
     (case cf_account config of
        None \<Rightarrow> Inl NoAccountObject
      | Some account \<Rightarrow>
          if \<not> truthy (acc_token account) then Inl MissingToken
          else (case acc_repos account of
             None \<Rightarrow> Inl ReposNotNonEmptyArray
           | Some repos \<Rightarrow>
               if repos = [] then Inl ReposNotNonEmptyArray
               else (case validateRepos repos of
                  Some e \<Rightarrow> Inl e
                | None \<Rightarrow>
                    (case (case cf_email config of
                             None \<Rightarrow> Inr None
                           | Some e \<Rightarrow> map_sum id Some (validateEmail e)) of
                       Inl e \<Rightarrow> Inl e
                     | Inr email' \<Rightarrow>
                         (case validateLlm (cf_llm config) of
                            Inl e \<Rightarrow> Inl e
                          | Inr llm' \<Rightarrow>
                              Inr (config\<lparr>
                                cf_email := email',
                                cf_schedule :=
                                  (if \<not> truthy (cf_schedule config) then Some ''0 4 * * *''
                                   else cf_schedule config),
                                cf_reposBaseDir :=
                                  (if \<not> truthy (cf_reposBaseDir config) then Some ''./repositories''
                                   else cf_reposBaseDir config),
                                cf_llm := Some llm'\<rparr>))))))"

subsection \<open>Calls of the collaborators\<close>

text \<open>
  The controller and the resolver work through the \<^verbatim>\<open>GitClient\<close> instance, the file
  system, the text-generation client, the test runner and the mailer. Every call of one of
  them is an element of the trace, in the order the calls are made: the methods of
  \<^verbatim>\<open>GitClient\<close> (modules/git.js) and its constructor, \<^verbatim>\<open>fs\<close>, \<^verbatim>\<open>new OpenAI\<close> and
  \<^verbatim>\<open>generateText\<close>, \<^verbatim>\<open>runTests\<close> and \<^verbatim>\<open>sendSyncReport\<close>. The resolver is part
  of the model; \<open>ResolveConflicts\<close> records that the controller entered it, with the
  list of files it was given.
\<close>

datatype call =
    ExistsSync string
  | MkdirSync string
  | NewGitClient string
  | CheckIsRepo
  | Clone string
  | GetRemotes
  | AddRemote string string
  | Fetch "string list"
  | Checkout string
  | RevList "string list"
  | RevParse "string list"
  | Merge "string list"
  | Status
  | Push "string list"
  | Reset "string list"
  | Add "string list"
  | Commit string
  | GetFileContent string string
  | ResolveConflicts "string list"
  | NewOpenAI
  | ReadFile string
  | WriteFile string string
  | GenerateText string
  | RunTests string
  | SendSyncReport

type_synonym trace = "call list"

text \<open>
  A computation starts from the trace so far and ends with a value or a thrown error
  (\<open>Inl\<close> of its message) and the extended trace.
\<close>

type_synonym 'a io = "trace \<Rightarrow> (string + 'a) \<times> trace"

definition return_io :: "'a \<Rightarrow> 'a io" where
  "return_io x = (\<lambda>t. (Inr x, t))"

definition throw_io :: "string \<Rightarrow> 'a io" where
  "throw_io e = (\<lambda>t. (Inl e, t))"

definition bind_io :: "'a io \<Rightarrow> ('a \<Rightarrow> 'b io) \<Rightarrow> 'b io" where
  "bind_io m f = (\<lambda>t. case m t of (Inl e, t') \<Rightarrow> (Inl e, t') | (Inr x, t') \<Rightarrow> f x t')"

definition try_catch :: "'a io \<Rightarrow> (string \<Rightarrow> 'a io) \<Rightarrow> 'a io" where
  "try_catch m h = (\<lambda>t. case m t of (Inl e, t') \<Rightarrow> h e t' | (Inr x, t') \<Rightarrow> (Inr x, t'))"

text \<open>A call: the collaborator answers from the calls made so far, and the call is recorded.\<close>

definition perform :: "call \<Rightarrow> (trace \<Rightarrow> string + 'a) \<Rightarrow> 'a io" where
  "perform c answer = (\<lambda>t. (answer t, t @ [c]))"

record remote =
  remote_name :: string
  remote_url :: string

text \<open>
  What the collaborators answer. Each answer may depend on every call made before, so an
  environment stands for any deterministic repository, file system and services. The two
  path functions are pure: \<open>path_resolve\<close> is \<^verbatim>\<open>path.resolve(process.cwd(), _)\<close>.
\<close>

record env =
  existsSync_r :: "trace \<Rightarrow> string \<Rightarrow> bool"
  mkdirSync_r :: "trace \<Rightarrow> string \<Rightarrow> string + unit"
  newGitClient_r :: "trace \<Rightarrow> string \<Rightarrow> string + unit"
  checkIsRepo_r :: "trace \<Rightarrow> string + bool"
  clone_r :: "trace \<Rightarrow> string \<Rightarrow> string + unit"
  getRemotes_r :: "trace \<Rightarrow> string + remote list"
  addRemote_r :: "trace \<Rightarrow> string \<Rightarrow> string \<Rightarrow> string + unit"
  fetch_r :: "trace \<Rightarrow> string list \<Rightarrow> string + unit"
  checkout_r :: "trace \<Rightarrow> string \<Rightarrow> string + unit"
  revList_r :: "trace \<Rightarrow> string list \<Rightarrow> string + string"
  revParse_r :: "trace \<Rightarrow> string list \<Rightarrow> string + string"
  merge_r :: "trace \<Rightarrow> string list \<Rightarrow> string + unit"
  status_r :: "trace \<Rightarrow> string + string list"
  push_r :: "trace \<Rightarrow> string list \<Rightarrow> string + unit"
  reset_r :: "trace \<Rightarrow> string list \<Rightarrow> string + unit"
  add_r :: "trace \<Rightarrow> string list \<Rightarrow> string + unit"
  commit_r :: "trace \<Rightarrow> string \<Rightarrow> string + unit"
  getFileContent_r :: "trace \<Rightarrow> string \<Rightarrow> string \<Rightarrow> string + string"
  newOpenAI_r :: "trace \<Rightarrow> string + unit"
  readFile_r :: "trace \<Rightarrow> string \<Rightarrow> string + string"
  writeFile_r :: "trace \<Rightarrow> string \<Rightarrow> string \<Rightarrow> string + unit"
  generateText_r :: "trace \<Rightarrow> string \<Rightarrow> string + string"
  runTests_r :: "trace \<Rightarrow> string \<Rightarrow> string + bool"
  sendSyncReport_r :: "trace \<Rightarrow> string + unit"
  path_resolve :: "string \<Rightarrow> string"
  path_join :: "string \<Rightarrow> string \<Rightarrow> string"

definition fs_existsSync :: "env \<Rightarrow> string \<Rightarrow> bool io" where
  "fs_existsSync env p = perform (ExistsSync p) (\<lambda>t. Inr (existsSync_r env t p))"

definition fs_mkdirSync :: "env \<Rightarrow> string \<Rightarrow> unit io" where
  "fs_mkdirSync env p = perform (MkdirSync p) (\<lambda>t. mkdirSync_r env t p)"

definition new_GitClient :: "env \<Rightarrow> string \<Rightarrow> unit io" where
  "new_GitClient env repoDir = perform (NewGitClient repoDir) (\<lambda>t. newGitClient_r env t repoDir)"

definition git_checkIsRepo :: "env \<Rightarrow> bool io" where
  "git_checkIsRepo env = perform CheckIsRepo (checkIsRepo_r env)"

definition git_clone :: "env \<Rightarrow> string \<Rightarrow> unit io" where
  "git_clone env url = perform (Clone url) (\<lambda>t. clone_r env t url)"

definition git_getRemotes :: "env \<Rightarrow> remote list io" where
  "git_getRemotes env = perform GetRemotes (getRemotes_r env)"

definition git_addRemote :: "env \<Rightarrow> string \<Rightarrow> string \<Rightarrow> unit io" where
  "git_addRemote env n url = perform (AddRemote n url) (\<lambda>t. addRemote_r env t n url)"

definition git_fetch :: "env \<Rightarrow> string list \<Rightarrow> unit io" where
  "git_fetch env opts = perform (Fetch opts) (\<lambda>t. fetch_r env t opts)"

definition git_checkout :: "env \<Rightarrow> string \<Rightarrow> unit io" where
  "git_checkout env branch = perform (Checkout branch) (\<lambda>t. checkout_r env t branch)"

definition git_revList :: "env \<Rightarrow> string list \<Rightarrow> string io" where
  "git_revList env opts = perform (RevList opts) (\<lambda>t. revList_r env t opts)"

definition git_revParse :: "env \<Rightarrow> string list \<Rightarrow> string io" where
  "git_revParse env opts = perform (RevParse opts) (\<lambda>t. revParse_r env t opts)"

definition git_merge :: "env \<Rightarrow> string list \<Rightarrow> unit io" where
  "git_merge env opts = perform (Merge opts) (\<lambda>t. merge_r env t opts)"

definition git_status :: "env \<Rightarrow> string list io" where
  "git_status env = perform Status (status_r env)"

definition git_push :: "env \<Rightarrow> string list \<Rightarrow> unit io" where
  "git_push env opts = perform (Push opts) (\<lambda>t. push_r env t opts)"

definition git_reset :: "env \<Rightarrow> string list \<Rightarrow> unit io" where
  "git_reset env opts = perform (Reset opts) (\<lambda>t. reset_r env t opts)"

definition git_add :: "env \<Rightarrow> string list \<Rightarrow> unit io" where
  "git_add env files = perform (Add files) (\<lambda>t. add_r env t files)"

definition git_commit :: "env \<Rightarrow> string \<Rightarrow> unit io" where
  "git_commit env msg = perform (Commit msg) (\<lambda>t. commit_r env t msg)"

definition git_getFileContent :: "env \<Rightarrow> string \<Rightarrow> string \<Rightarrow> string io" where
  "git_getFileContent env revision filePath =
     perform (GetFileContent revision filePath) (\<lambda>t. getFileContent_r env t revision filePath)"

definition new_OpenAI :: "env \<Rightarrow> unit io" where
  "new_OpenAI env = perform NewOpenAI (newOpenAI_r env)"

definition fs_readFile :: "env \<Rightarrow> string \<Rightarrow> string io" where
  "fs_readFile env p = perform (ReadFile p) (\<lambda>t. readFile_r env t p)"

definition fs_writeFile :: "env \<Rightarrow> string \<Rightarrow> string \<Rightarrow> unit io" where
  "fs_writeFile env p content = perform (WriteFile p content) (\<lambda>t. writeFile_r env t p content)"

definition generateText :: "env \<Rightarrow> string \<Rightarrow> string io" where
  "generateText env prompt = perform (GenerateText prompt) (\<lambda>t. generateText_r env t prompt)"

definition runTests :: "env \<Rightarrow> string \<Rightarrow> bool io" where
  "runTests env repoDir = perform (RunTests repoDir) (\<lambda>t. runTests_r env t repoDir)"

definition sendSyncReport :: "env \<Rightarrow> unit io" where
  "sendSyncReport env = perform SendSyncReport (sendSyncReport_r env)"

subsection \<open>initializeLLMClient (utils/llm-client.js)\<close>

definition initializeLLMClient :: "env \<Rightarrow> llm_config option \<Rightarrow> unit io" where
  "initializeLLMClient env config =
     (case config of
        None \<Rightarrow>
          throw_io (''LLM client configuration is missing or incomplete. '' @
                    ''apiKey, provider, and model are required.'')
      | Some c \<Rightarrow>
          if \<not> truthy (apiKey c) \<or> \<not> truthy (provider c) \<or> \<not> truthy (model c) then
            throw_io (''LLM client configuration is missing or incomplete. '' @
                      ''apiKey, provider, and model are required.'')
          else if toLowerCase (js_str (provider c)) = ''openai'' then new_OpenAI env
          else
            throw_io (''Unsupported LLM provider: '' @ js_str (provider c) @
                      ''. Currently, only '' @ [CHR 0x27] @ ''openai'' @ [CHR 0x27] @
                      '' is supported.''))"

subsection \<open>resolveConflicts (conflict-resolver module)\<close>

record resolve_result =
  rr_success :: bool
  rr_error :: "string option"

definition nl :: string where
  "nl = [CHR 0x0A]"

text \<open>The template literal of the prompt.\<close>

definition conflict_prompt :: "string \<Rightarrow> string \<Rightarrow> string \<Rightarrow> string \<Rightarrow> string" where
  "conflict_prompt filePath oursContent baseContent fileContent =
     nl @ ''The following file has merge conflicts: '' @ filePath @ nl @
     nl @ ''--- OURS (Current branch) ---'' @ nl @
     oursContent @ nl @
     ''--- END OURS ---'' @ nl @
     nl @ ''--- THEIRS (Branch being merged) ---'' @ nl @
     baseContent @ '' // In a standard merge, MERGE_HEAD is '' @
       [CHR 0x27] @ ''theirs'' @ [CHR 0x27] @ nl @
     ''--- END THEIRS ---'' @ nl @
     nl @ ''--- CONFLICTED FILE CONTENT ---'' @ nl @
     fileContent @ nl @
     ''--- END CONFLICTED FILE CONTENT ---'' @ nl @
     nl @ ''Please resolve the conflicts in the file content.'' @ nl @
     ''Analyze the changes from OURS and THEIRS against the CONFLICTED FILE CONTENT.'' @ nl @
     ''Your goal is to integrate the changes from THEIRS into OURS, preserving the '' @
     ''functionality of OURS while incorporating the updates from THEIRS.'' @ nl @
     ''Output ONLY the fully resolved file content. Do not include any explanations, '' @
     ''comments, or markdown formatting around the code.'' @ nl @
     ''Ensure the output is ready to be written directly back to the file.'' @ nl"

text \<open>
  The body of the loop over the conflicted files, inside its \<^verbatim>\<open>try\<close>: \<open>True\<close> when the
  resolution of \<open>filePath\<close> was written and staged, \<open>False\<close> when the model returned no
  content. The two reads of a revision fall back to \<^verbatim>\<open>'Unavailable'\<close>.
\<close>

definition resolveFile :: "env \<Rightarrow> string \<Rightarrow> string \<Rightarrow> bool io" where
  "resolveFile env repoDir filePath =
     (let absoluteFilePath = path_join env repoDir filePath in
      bind_io (fs_readFile env absoluteFilePath) (\<lambda>fileContent.
      bind_io (try_catch (git_getFileContent env ''MERGE_HEAD'' filePath)
                 (\<lambda>_. return_io ''Unavailable'')) (\<lambda>baseContent.
      bind_io (try_catch (git_getFileContent env ''HEAD'' filePath)
                 (\<lambda>_. return_io ''Unavailable'')) (\<lambda>oursContent.
      bind_io (generateText env
                 (conflict_prompt filePath oursContent baseContent fileContent))
        (\<lambda>resolvedContent.
      if resolvedContent \<noteq> [] then
        bind_io (fs_writeFile env absoluteFilePath resolvedContent) (\<lambda>_.
        bind_io (git_add env [filePath]) (\<lambda>_.
        return_io True))
      else return_io False)))))"

text \<open>
  The loop: \<^verbatim>\<open>allResolved\<close> at its end. A file that throws, or for which the model
  returned nothing, sets it to \<open>False\<close> and leaves the loop.
\<close>

primrec resolveFiles :: "env \<Rightarrow> string \<Rightarrow> string list \<Rightarrow> bool io" where
  "resolveFiles env repoDir [] = return_io True"
| "resolveFiles env repoDir (filePath # rest) =
     bind_io (try_catch (resolveFile env repoDir filePath) (\<lambda>error. return_io False))
       (\<lambda>resolved. if resolved then resolveFiles env repoDir rest else return_io False)"

text \<open>
  The first \<^verbatim>\<open>try\<close> returns from its \<^verbatim>\<open>catch\<close>: \<open>Some\<close> of the returned object
  when the client could not be initialised, \<open>None\<close> to go on.
\<close>

definition resolveConflicts ::
  "env \<Rightarrow> string \<Rightarrow> string list \<Rightarrow> llm_config option \<Rightarrow> resolve_result io" where
  "resolveConflicts env repoDir conflictedFiles llmConfig =
     bind_io (perform (ResolveConflicts conflictedFiles) (\<lambda>t. Inr ())) (\<lambda>_.
     bind_io
       (try_catch
          (bind_io (initializeLLMClient env llmConfig) (\<lambda>_. return_io None))
          (\<lambda>error.
             return_io (Some \<lparr>rr_success = False,
                rr_error = Some (''LLM client initialization failed: '' @ error)\<rparr>)))
       (\<lambda>returned. case returned of
          Some result \<Rightarrow> return_io result
        | None \<Rightarrow>
            bind_io (resolveFiles env repoDir conflictedFiles) (\<lambda>allResolved.
            if allResolved \<and> length conflictedFiles > 0 then
              try_catch
                (bind_io (git_commit env
                            (''Automated merge conflict resolution by LLM for '' @
                             string_of_nat (length conflictedFiles) @ '' file(s)'')) (\<lambda>_.
                 return_io \<lparr>rr_success = True, rr_error = None\<rparr>))
                (\<lambda>commitError.
                   return_io \<lparr>rr_success = False,
                      rr_error = Some (''Failed to commit changes: '' @ commitError)\<rparr>)
            else if length conflictedFiles = 0 then
              return_io \<lparr>rr_success = True, rr_error = None\<rparr>
            else
              return_io \<lparr>rr_success = False,
                 rr_error = Some ''LLM failed to resolve all conflicts.''\<rparr>)))"

subsection \<open>The sync controller\<close>

record account =
  name :: string
  token :: string
  repos :: "string list"
  devBranch :: string
  upstreamBranch :: string

record config =
  accounts :: "account list"
  reposBaseDir :: string
  runTestsAfterMerge :: bool
  llm :: "llm_config option"
  email :: bool
  sendMailOnFailure :: bool

record options =
  accountFilter :: "string option"
  repoFilter :: "string option"

text \<open>What \<^verbatim>\<open>mergeUpstreamChanges\<close> returns; \<^verbatim>\<open>syncRepository\<close> adds \<^verbatim>\<open>testsStatus\<close>.\<close>

record merge_result =
  mr_success :: bool
  mr_hadConflicts :: bool
  mr_usedLLM :: bool
  mr_message :: "string option"
  mr_error :: "string option"
  mr_testsStatus :: "string option"

text \<open>The outcome of one repository; a field the returned object does not have is \<open>None\<close>.\<close>

record outcome =
  repository :: string
  account :: string
  success :: bool
  status :: string
  hadConflicts :: "bool option"
  usedLLM :: "bool option"
  testsStatus :: "string option"
  message :: "string option"
  error :: "string option"

record results =
  batch_success :: bool
  syncedRepos :: nat
  failedRepos :: nat
  skippedRepos :: nat
  details :: "outcome list"

text \<open>What \<^verbatim>\<open>startSync\<close> returns: the object without counters of the early return, or
  the summary.\<close>

datatype sync_report = NoMatchingAccounts | Summary results

subsubsection \<open>initializeRepository\<close>

definition initializeRepository :: "env \<Rightarrow> string \<Rightarrow> account \<Rightarrow> bool io" where
  "initializeRepository env repoFullName acct =
     try_catch
       (bind_io (git_checkIsRepo env) (\<lambda>isRepo.
        bind_io (if \<not> isRepo
                 then git_clone env
                        (''https://'' @ token acct @ ''@github.com/'' @ repoFullName @ ''.git'')
                 else return_io ()) (\<lambda>_.
        bind_io (git_getRemotes env) (\<lambda>remotes.
        bind_io (if find (\<lambda>remote. remote_name remote = ''upstream'') remotes = None
                 then (let owner = nth_opt (split_on CHR ''/'' repoFullName) 0;
                           repoName = nth_opt (split_on CHR ''/'' repoFullName) 1
                       in git_addRemote env ''upstream''
                            (''https://github.com/'' @ js_str owner @ ''/'' @
                             js_str repoName @ ''.git''))
                 else return_io ()) (\<lambda>_.
        bind_io (git_fetch env [''--all'']) (\<lambda>_.
        return_io True))))))
       (\<lambda>err. return_io False)"

subsubsection \<open>checkForUpstreamChanges\<close>

text \<open>The \<^verbatim>\<open>catch\<close> logs and throws the same error again.\<close>

definition checkForUpstreamChanges :: "env \<Rightarrow> account \<Rightarrow> bool io" where
  "checkForUpstreamChanges env acct =
     bind_io (git_checkout env (devBranch acct)) (\<lambda>_.
     bind_io (git_revList env [devBranch acct @ ''..upstream/'' @ upstreamBranch acct])
       (\<lambda>revList.
     return_io (length (trimEnd revList) > 0)))"

subsubsection \<open>mergeUpstreamChanges\<close>

text \<open>
  The outer \<^verbatim>\<open>catch\<close> reads the locals \<^verbatim>\<open>hadConflicts\<close> and \<^verbatim>\<open>usedLLM\<close>. They
  change at two points of the \<^verbatim>\<open>try\<close> body, so the handler is attached to each of the
  three regions with the values the locals have there.
\<close>

definition merge_failed :: "bool \<Rightarrow> bool \<Rightarrow> string \<Rightarrow> merge_result io" where
  "merge_failed conflicts llmUsed err =
     return_io \<lparr>mr_success = False, mr_hadConflicts = conflicts, mr_usedLLM = llmUsed,
       mr_message = None, mr_error = Some (''Failed to merge: '' @ err),
       mr_testsStatus = None\<rparr>"

definition mergeUpstreamChanges :: "env \<Rightarrow> string \<Rightarrow> account \<Rightarrow> config \<Rightarrow> merge_result io" where
  "mergeUpstreamChanges env repoDir acct config =
     try_catch
       (bind_io (git_checkout env (devBranch acct)) (\<lambda>_.
        bind_io (git_revParse env [''HEAD'']) (\<lambda>originalHead.
        try_catch
          (bind_io (git_merge env [''upstream/'' @ upstreamBranch acct]) (\<lambda>_.
           bind_io (git_push env [''origin'', devBranch acct]) (\<lambda>_.
           return_io \<lparr>mr_success = True, mr_hadConflicts = False, mr_usedLLM = False,
             mr_message = Some ''Successfully merged and pushed upstream changes'',
             mr_error = None, mr_testsStatus = None\<rparr>)))
          (\<lambda>mergeError.
             if js_includes mergeError ''CONFLICTS'' then
               try_catch
                 (bind_io (git_status env) (\<lambda>conflictedFiles.
                  if length conflictedFiles = 0 then
                    throw_io ''Failed to identify conflicted files''
                  else
                    bind_io (resolveConflicts env repoDir conflictedFiles (llm config))
                      (\<lambda>resolveResult.
                    try_catch
                      (if rr_success resolveResult then
                         bind_io (git_push env [''origin'', devBranch acct]) (\<lambda>_.
                         return_io \<lparr>mr_success = True, mr_hadConflicts = True,
                           mr_usedLLM = True,
                           mr_message = Some (''Successfully resolved '' @
                             string_of_nat (length conflictedFiles) @
                             '' conflicts and pushed changes''),
                           mr_error = None, mr_testsStatus = None\<rparr>)
                       else
                         bind_io (try_catch (git_reset env [''--hard'', originalHead])
                                    (\<lambda>resetError. return_io ())) (\<lambda>_.
                         return_io \<lparr>mr_success = False, mr_hadConflicts = True,
                           mr_usedLLM = True,
                           mr_message = Some ''Merge aborted due to unresolvable conflicts'',
                           mr_error = Some (''Failed to resolve conflicts: '' @
                             js_str (rr_error resolveResult)),
                           mr_testsStatus = None\<rparr>))
                      (merge_failed True True))))
                 (merge_failed True False)
             else throw_io mergeError))))
       (merge_failed False False)"

subsubsection \<open>syncRepository\<close>

text \<open>
  The statements of \<^verbatim>\<open>syncRepository\<close> between the check of the name and the
  \<^verbatim>\<open>try\<close>: the base directory is created when it does not exist, then the
  \<^verbatim>\<open>GitClient\<close> is constructed. An error thrown here leaves \<^verbatim>\<open>syncRepository\<close>.
\<close>

definition openGitClient :: "env \<Rightarrow> string \<Rightarrow> string \<Rightarrow> unit io" where
  "openGitClient env repoBaseDir repoDir =
     bind_io (fs_existsSync env repoBaseDir) (\<lambda>baseDirExists.
     bind_io (if \<not> baseDirExists then fs_mkdirSync env repoBaseDir else return_io ()) (\<lambda>_.
     new_GitClient env repoDir))"

definition repoDir_of :: "env \<Rightarrow> config \<Rightarrow> account \<Rightarrow> string \<Rightarrow> string" where
  "repoDir_of env config acct repoFullName =
     path_join env (path_resolve env (reposBaseDir config))
       (name acct @ ''-'' @ js_str (nth_opt (split_on CHR ''/'' repoFullName) 0) @ ''-'' @
        js_str (nth_opt (split_on CHR ''/'' repoFullName) 1))"

definition syncRepository :: "env \<Rightarrow> string \<Rightarrow> account \<Rightarrow> config \<Rightarrow> outcome io" where
  "syncRepository env repoFullName acct config =
     (let owner = nth_opt (split_on CHR ''/'' repoFullName) 0;
          repoName = nth_opt (split_on CHR ''/'' repoFullName) 1
      in
      if \<not> truthy owner \<or> \<not> truthy repoName then
        return_io \<lparr>repository = repoFullName, account = name acct, success = False,
          status = ''error'', hadConflicts = None, usedLLM = None, testsStatus = None,
          message = None, error = Some ''Invalid repository format''\<rparr>
      else
       (let repoBaseDir = path_resolve env (reposBaseDir config);
            repoDir = repoDir_of env config acct repoFullName
        in
        bind_io (openGitClient env repoBaseDir repoDir) (\<lambda>_.
        try_catch
          (bind_io (initializeRepository env repoFullName acct) (\<lambda>initialized.
           if \<not> initialized then
             return_io \<lparr>repository = repoFullName, account = name acct, success = False,
               status = ''error'', hadConflicts = None, usedLLM = None, testsStatus = None,
               message = None, error = Some ''Failed to initialize repository''\<rparr>
           else
             bind_io (checkForUpstreamChanges env acct) (\<lambda>hasChanges.
             if \<not> hasChanges then
               return_io \<lparr>repository = repoFullName, account = name acct, success = True,
                 status = ''skipped'', hadConflicts = None, usedLLM = None,
                 testsStatus = None, message = Some ''No upstream changes to sync'',
                 error = None\<rparr>
             else
               bind_io (mergeUpstreamChanges env repoDir acct config) (\<lambda>mergeResult.
               bind_io
                 (if runTestsAfterMerge config \<and> mr_success mergeResult then
                    try_catch
                      (bind_io (runTests env repoDir) (\<lambda>testsPassed.
                       if \<not> testsPassed
                       then return_io (mergeResult\<lparr>mr_testsStatus := Some ''failed''\<rparr>)
                       else return_io (mergeResult\<lparr>mr_testsStatus := Some ''passed''\<rparr>)))
                      (\<lambda>err. return_io (mergeResult\<lparr>mr_testsStatus := Some ''error''\<rparr>))
                  else return_io mergeResult) (\<lambda>mergeResult.
               return_io \<lparr>repository = repoFullName, account = name acct,
                 success = mr_success mergeResult,
                 status = (if mr_success mergeResult then ''synced'' else ''error''),
                 hadConflicts = Some (mr_hadConflicts mergeResult),
                 usedLLM = Some (mr_usedLLM mergeResult),
                 testsStatus = mr_testsStatus mergeResult,
                 message = mr_message mergeResult,
                 error = mr_error mergeResult\<rparr>)))))
          (\<lambda>err.
             return_io \<lparr>repository = repoFullName, account = name acct, success = False,
               status = ''error'', hadConflicts = None, usedLLM = None, testsStatus = None,
               message = None, error = Some err\<rparr>))))"

subsubsection \<open>startSync\<close>

text \<open>The body of the loop over the repositories of one account, with its \<^verbatim>\<open>try\<close>.\<close>

definition syncOne :: "env \<Rightarrow> config \<Rightarrow> account \<Rightarrow> string \<Rightarrow> results \<Rightarrow> results io" where
  "syncOne env config acct repo results =
     try_catch
       (bind_io (syncRepository env repo acct config) (\<lambda>repoResult.
        return_io
          (let pushed = results\<lparr>details := details results @ [repoResult]\<rparr> in
           if success repoResult then
             (if status repoResult = ''synced''
              then pushed\<lparr>syncedRepos := syncedRepos pushed + 1\<rparr>
              else if status repoResult = ''skipped''
              then pushed\<lparr>skippedRepos := skippedRepos pushed + 1\<rparr>
              else pushed)
           else pushed\<lparr>failedRepos := failedRepos pushed + 1, batch_success := False\<rparr>)))
       (\<lambda>err.
          return_io (results\<lparr>
            failedRepos := failedRepos results + 1,
            batch_success := False,
            details := details results @
              [\<lparr>repository = repo, account = name acct, success = False,
                status = ''error'', hadConflicts = None, usedLLM = None, testsStatus = None,
                message = None, error = Some err\<rparr>]\<rparr>))"

primrec syncRepos :: "env \<Rightarrow> config \<Rightarrow> account \<Rightarrow> string list \<Rightarrow> results \<Rightarrow> results io" where
  "syncRepos env config acct [] results = return_io results"
| "syncRepos env config acct (repo # rest) results =
     bind_io (syncOne env config acct repo results)
       (\<lambda>results'. syncRepos env config acct rest results')"

text \<open>The repositories of an account that the optional filter selects.\<close>

definition selected_repos :: "options \<Rightarrow> account \<Rightarrow> string list" where
  "selected_repos opts acct =
     (if truthy (repoFilter opts)
      then filter (\<lambda>repo. Some repo = repoFilter opts) (repos acct)
      else repos acct)"

primrec syncAccounts :: "env \<Rightarrow> config \<Rightarrow> options \<Rightarrow> account list \<Rightarrow> results \<Rightarrow> results io" where
  "syncAccounts env config opts [] results = return_io results"
| "syncAccounts env config opts (acct # rest) results =
     (if length (selected_repos opts acct) = 0
      then syncAccounts env config opts rest results
      else bind_io (syncRepos env config acct (selected_repos opts acct) results)
             (\<lambda>results'. syncAccounts env config opts rest results'))"

definition selected_accounts :: "config \<Rightarrow> options \<Rightarrow> account list" where
  "selected_accounts config opts =
     (if truthy (accountFilter opts)
      then filter (\<lambda>acct. Some (name acct) = accountFilter opts) (accounts config)
      else accounts config)"

definition startSync :: "env \<Rightarrow> config \<Rightarrow> options \<Rightarrow> sync_report io" where
  "startSync env config opts =
     (if length (selected_accounts config opts) = 0 then return_io NoMatchingAccounts
      else
        bind_io (syncAccounts env config opts (selected_accounts config opts)
                   \<lparr>batch_success = True, syncedRepos = 0, failedRepos = 0, skippedRepos = 0,
                    details = []\<rparr>) (\<lambda>results.
        bind_io (if email config \<and>
                    (syncedRepos results > 0 \<or> failedRepos results > 0 \<or>
                     sendMailOnFailure config)
                 then try_catch (sendSyncReport env) (\<lambda>err. return_io ())
                 else return_io ()) (\<lambda>_.
        return_io (Summary results))))"

subsection \<open>Notions used to state the properties\<close>

text \<open>The calls a computation added to the trace it started from.\<close>

definition calls_since :: "trace \<Rightarrow> trace \<Rightarrow> call list" where
  "calls_since t0 t = drop (length t0) t"

fun is_merge :: "call \<Rightarrow> bool" where
  "is_merge (Merge opts) = True"
| "is_merge _ = False"

fun is_push :: "call \<Rightarrow> bool" where
  "is_push (Push opts) = True"
| "is_push _ = False"

fun is_resolve :: "call \<Rightarrow> bool" where
  "is_resolve (ResolveConflicts files) = True"
| "is_resolve _ = False"

fun is_clone :: "call \<Rightarrow> bool" where
  "is_clone (Clone url) = True"
| "is_clone _ = False"

fun is_generateText :: "call \<Rightarrow> bool" where
  "is_generateText (GenerateText prompt) = True"
| "is_generateText _ = False"

fun is_commit :: "call \<Rightarrow> bool" where
  "is_commit (Commit msg) = True"
| "is_commit _ = False"

text \<open>A computation only appends calls that satisfy P.\<close>

definition emits :: "(call \<Rightarrow> bool) \<Rightarrow> 'a io \<Rightarrow> bool" where
  "emits P m = (\<forall>t. \<exists>new. snd (m t) = t @ new \<and> list_all P new)"

text \<open>A call that is not a merge, a push, the resolver, a text-generation request or a
  commit.\<close>

definition quiet :: "call \<Rightarrow> bool" where
  "quiet c =
     (\<not> is_merge c \<and> \<not> is_push c \<and> \<not> is_resolve c \<and> \<not> is_generateText c \<and> \<not> is_commit c)"

text \<open>
  The trace at which \<^verbatim>\<open>syncRepository\<close> calls \<^verbatim>\<open>checkForUpstreamChanges\<close>: the name
  has an owner and a repository part, the client was constructed and the initialisation
  returned \<^verbatim>\<open>true\<close>. \<open>None\<close> when the run ends before.
\<close>

definition drift_check_start :: "env \<Rightarrow> string \<Rightarrow> account \<Rightarrow> config \<Rightarrow> trace \<Rightarrow> trace option" where
  "drift_check_start env repoFullName acct config t0 =
     (if \<not> truthy (nth_opt (split_on CHR ''/'' repoFullName) 0) \<or>
         \<not> truthy (nth_opt (split_on CHR ''/'' repoFullName) 1) then None
      else
        (case openGitClient env (path_resolve env (reposBaseDir config))
                (repoDir_of env config acct repoFullName) t0 of
           (Inl err, t1) \<Rightarrow> None
         | (Inr u, t1) \<Rightarrow>
             (case initializeRepository env repoFullName acct t1 of
                (Inr True, t2) \<Rightarrow> Some t2
              | (Inr False, t2) \<Rightarrow> None
              | (Inl err, t2) \<Rightarrow> None)))"

text \<open>
  The trace at which \<^verbatim>\<open>syncRepository\<close> calls \<^verbatim>\<open>mergeUpstreamChanges\<close>: the drift check
  was reached and found commits of the upstream branch that the development branch lacks.
\<close>

definition merge_start :: "env \<Rightarrow> string \<Rightarrow> account \<Rightarrow> config \<Rightarrow> trace \<Rightarrow> trace option" where
  "merge_start env repoFullName acct config t0 =
     (case drift_check_start env repoFullName acct config t0 of
        None \<Rightarrow> None
      | Some t2 \<Rightarrow>
          (case checkForUpstreamChanges env acct t2 of
             (Inr True, t3) \<Rightarrow> Some t3
           | (Inr False, t3) \<Rightarrow> None
           | (Inl err, t3) \<Rightarrow> None))"

text \<open>
  The outcome recorded for one repository: what \<^verbatim>\<open>syncRepository\<close> returned, or the
  error outcome that carries the message of what it threw.
\<close>

definition recorded :: "account \<Rightarrow> string \<Rightarrow> string + outcome \<Rightarrow> outcome" where
  "recorded acct repo r =
     (case r of
        Inr out \<Rightarrow> out
      | Inl err \<Rightarrow>
          \<lparr>repository = repo, account = name acct, success = False, status = ''error'',
           hadConflicts = None, usedLLM = None, testsStatus = None, message = None,
           error = Some err\<rparr>)"

text \<open>The counting of one recorded outcome, as in the body of the loop of \<^verbatim>\<open>startSync\<close>.\<close>

definition tally :: "results \<Rightarrow> outcome \<Rightarrow> results" where
  "tally results out =
     (let pushed = results\<lparr>details := details results @ [out]\<rparr> in
      if success out then
        (if status out = ''synced''
         then pushed\<lparr>syncedRepos := syncedRepos pushed + 1\<rparr>
         else if status out = ''skipped''
         then pushed\<lparr>skippedRepos := skippedRepos pushed + 1\<rparr>
         else pushed)
      else pushed\<lparr>failedRepos := failedRepos pushed + 1, batch_success := False\<rparr>)"

text \<open>
  The isolation of the batch in the words of the specification: every pair is run, in
  order, from the trace the one before left, whether that one returned or threw, and each
  contributes its recorded outcome.
\<close>

fun isolated_outcomes ::
  "env \<Rightarrow> config \<Rightarrow> (account \<times> string) list \<Rightarrow> trace \<Rightarrow> outcome list \<times> trace" where
  "isolated_outcomes env config [] t = ([], t)"
| "isolated_outcomes env config ((acct, repo) # rest) t =
     (case syncRepository env repo acct config t of
        (r, t') \<Rightarrow>
          (case isolated_outcomes env config rest t' of
             (outs, t'') \<Rightarrow> (recorded acct repo r # outs, t'')))"

text \<open>The pairs of account and repository the filters select, in the order of the loops.\<close>

definition selected_pairs :: "config \<Rightarrow> options \<Rightarrow> (account \<times> string) list" where
  "selected_pairs config opts =
     concat (map (\<lambda>acct. map (Pair acct) (selected_repos opts acct))
               (selected_accounts config opts))"

subsection \<open>Sample data\<close>

definition sample_account :: account where
  "sample_account =
     \<lparr>name = ''me'', token = ''s3cret'', repos = [''octo/hello'', ''octo/world''],
      devBranch = ''dev'', upstreamBranch = ''main''\<rparr>"

definition sample_llm :: llm_config where
  "sample_llm = \<lparr>provider = Some ''OpenAI'', model = Some ''gpt-4'', apiKey = Some ''key''\<rparr>"

definition sample_config :: config where
  "sample_config =
     \<lparr>accounts = [sample_account], reposBaseDir = ''repositories'',
      runTestsAfterMerge = False, llm = Some sample_llm, email = False,
      sendMailOnFailure = False\<rparr>"

definition no_filter :: options where
  "no_filter = \<lparr>accountFilter = None, repoFilter = None\<rparr>"

text \<open>
  An environment in which every call succeeds: the working copy exists with both remotes,
  the upstream branch has one commit the development branch lacks, the merge is clean.
\<close>

definition calm_env :: env where
  "calm_env =
     \<lparr>existsSync_r = (\<lambda>t p. True),
      mkdirSync_r = (\<lambda>t p. Inr ()),
      newGitClient_r = (\<lambda>t d. Inr ()),
      checkIsRepo_r = (\<lambda>t. Inr True),
      clone_r = (\<lambda>t url. Inr ()),
      getRemotes_r = (\<lambda>t. Inr
         [\<lparr>remote_name = ''origin'', remote_url = ''https://old@github.com/octo/hello.git''\<rparr>,
          \<lparr>remote_name = ''upstream'', remote_url = ''https://example.org/moved.git''\<rparr>]),
      addRemote_r = (\<lambda>t n url. Inr ()),
      fetch_r = (\<lambda>t opts. Inr ()),
      checkout_r = (\<lambda>t b. Inr ()),
      revList_r = (\<lambda>t opts. Inr (''c0ffee'' @ nl)),
      revParse_r = (\<lambda>t opts. Inr ''abc123''),
      merge_r = (\<lambda>t opts. Inr ()),
      status_r = (\<lambda>t. Inr []),
      push_r = (\<lambda>t opts. Inr ()),
      reset_r = (\<lambda>t opts. Inr ()),
      add_r = (\<lambda>t files. Inr ()),
      commit_r = (\<lambda>t msg. Inr ()),
      getFileContent_r = (\<lambda>t revision p. Inr ''x''),
      newOpenAI_r = (\<lambda>t. Inr ()),
      readFile_r = (\<lambda>t p. Inr ''y''),
      writeFile_r = (\<lambda>t p c. Inr ()),
      generateText_r = (\<lambda>t prompt. Inr ''z''),
      runTests_r = (\<lambda>t d. Inr True),
      sendSyncReport_r = (\<lambda>t. Inr ()),
      path_resolve = (\<lambda>p. ''/srv/'' @ p),
      path_join = (\<lambda>a b. a @ ''/'' @ b)\<rparr>"

text \<open>No drift: the list of missing commits is a blank line.\<close>

definition no_drift_env :: env where
  "no_drift_env = calm_env\<lparr>revList_r := (\<lambda>t opts. Inr nl)\<rparr>"

text \<open>The remote rejects the push.\<close>

definition push_rejected_env :: env where
  "push_rejected_env = calm_env\<lparr>push_r := (\<lambda>t opts. Inl ''remote rejected'')\<rparr>"

text \<open>The merge is clean, and the first push fails with an error whose message contains
  \<^verbatim>\<open>CONFLICTS\<close>; the status lists one file, and a second push is accepted.\<close>

definition push_conflict_env :: env where
  "push_conflict_env =
     calm_env\<lparr>push_r := (\<lambda>t opts. if list_ex is_push t then Inr ()
                                  else Inl ''CONFLICTS with the remote branch''),
              status_r := (\<lambda>t. Inr [''a.txt''])\<rparr>"

text \<open>The merge stops on a conflict in one file.\<close>

definition conflict_env :: env where
  "conflict_env =
     calm_env\<lparr>merge_r := (\<lambda>t opts. Inl ''CONFLICTS: a.txt''),
              status_r := (\<lambda>t. Inr [''a.txt''])\<rparr>"

text \<open>The same, and the push after the resolution is rejected.\<close>

definition conflict_push_rejected_env :: env where
  "conflict_push_rejected_env = conflict_env\<lparr>push_r := (\<lambda>t opts. Inl ''remote rejected'')\<rparr>"

text \<open>The same conflict, and the text-generation service fails.\<close>

definition unresolved_env :: env where
  "unresolved_env = conflict_env\<lparr>generateText_r := (\<lambda>t prompt. Inl ''rate limited'')\<rparr>"

text \<open>The same, and the hard reset fails as well.\<close>

definition reset_fails_env :: env where
  "reset_fails_env = unresolved_env\<lparr>reset_r := (\<lambda>t opts. Inl ''index locked'')\<rparr>"

text \<open>A conflict is reported, and the status lists no conflicted file.\<close>

definition no_files_env :: env where
  "no_files_env = calm_env\<lparr>merge_r := (\<lambda>t opts. Inl ''CONFLICTS: a.txt'')\<rparr>"

text \<open>The constructor of the client throws for the working copy of \<^verbatim>\<open>octo/hello\<close>.\<close>

definition broken_dir_env :: env where
  "broken_dir_env =
     no_drift_env\<lparr>newGitClient_r :=
       (\<lambda>t d. if d = ''/srv/repositories/me-octo-hello''
               then Inl ''Cannot use simple-git on a directory that does not exist''
               else Inr ())\<rparr>"

text \<open>A configuration whose provider is not the supported one, and one with an
  identifier that has two colons.\<close>

definition other_provider :: llm_config where
  "other_provider = \<lparr>provider = Some ''anthropic'', model = Some ''m'', apiKey = Some ''key''\<rparr>"

definition two_colon_config :: config_file where
  "two_colon_config =
     \<lparr>cf_account = Some \<lparr>acc_token = Some ''s3cret'',
        acc_repos = Some [\<lparr>upstream = Str ''octo/hello:main:x'', fork = Str ''me/hello:dev''\<rparr>]\<rparr>,
      cf_email = None, cf_schedule = None, cf_reposBaseDir = None,
      cf_llm = Some sample_llm\<rparr>"

section \<open>Properties\<close>

subsection \<open>Computations\<close>

lemma return_io_apply: "return_io x t = (Inr x, t)"
  by (simp add: return_io_def)

lemma throw_io_apply: "throw_io e t = (Inl e, t)"
  by (simp add: throw_io_def)

lemma perform_apply: "perform c a t = (a t, t @ [c])"
  by (simp add: perform_def)

lemma bind_io_apply:
  "bind_io m f t = (case m t of (Inl e, t') \<Rightarrow> (Inl e, t') | (Inr x, t') \<Rightarrow> f x t')"
  by (simp add: bind_io_def)

lemma try_catch_apply:
  "try_catch m h t = (case m t of (Inl e, t') \<Rightarrow> h e t' | (Inr x, t') \<Rightarrow> (Inr x, t'))"
  by (simp add: try_catch_def)

lemmas io_simps = return_io_apply throw_io_apply perform_apply bind_io_apply try_catch_apply

lemmas op_defs = fs_existsSync_def fs_mkdirSync_def new_GitClient_def git_checkIsRepo_def
  git_clone_def git_getRemotes_def git_addRemote_def git_fetch_def git_checkout_def
  git_revList_def git_revParse_def git_merge_def git_status_def git_push_def git_reset_def
  git_add_def git_commit_def git_getFileContent_def new_OpenAI_def fs_readFile_def
  fs_writeFile_def generateText_def runTests_def sendSyncReport_def

lemmas model_defs = syncRepository_def openGitClient_def repoDir_of_def
  initializeRepository_def checkForUpstreamChanges_def mergeUpstreamChanges_def
  merge_failed_def resolveConflicts_def resolveFile_def initializeLLMClient_def
  drift_check_start_def merge_start_def

lemmas sample_defs = sample_account_def sample_config_def sample_llm_def no_filter_def
  calm_env_def no_drift_env_def push_rejected_env_def conflict_env_def
  conflict_push_rejected_env_def unresolved_env_def reset_fails_env_def no_files_env_def
  broken_dir_env_def other_provider_def push_conflict_env_def

lemmas eval_simps = model_defs sample_defs io_simps op_defs Let_def trimEnd_def js_space_def
  nl_def toLowerCase_def lower_char_def upper_letters_def lower_letters_def string_of_nat_def
  digit_def calls_since_def

lemma js_includes_append: "js_includes (a @ b) b"
  by (induction a) (auto simp: neq_Nil_conv, (cases b; simp)+)

lemma calls_since_append [simp]: "calls_since t (t @ new) = new"
  by (simp add: calls_since_def)

lemma calls_since_append2 [simp]: "calls_since t ((t @ a) @ b) = a @ b"
  by (simp add: calls_since_def)

subsection \<open>What a computation adds to the trace\<close>

lemma emitsD: "emits P m \<Longrightarrow> m t = (r, t') \<Longrightarrow> \<exists>new. t' = t @ new \<and> list_all P new"
  unfolding emits_def by (metis snd_conv)

lemma emits_return: "emits P (return_io x)"
  by (simp add: emits_def return_io_apply)

lemma emits_throw: "emits P (throw_io e)"
  by (simp add: emits_def throw_io_apply)

lemma emits_perform: "P c \<Longrightarrow> emits P (perform c a)"
  by (simp add: emits_def perform_apply)

lemma emits_bind:
  assumes "emits P m" "\<And>x. emits P (f x)"
  shows "emits P (bind_io m f)"
  unfolding emits_def
proof
  fix t
  obtain r t1 where m: "m t = (r, t1)" by (cases "m t")
  from emitsD[OF assms(1) m] obtain n1 where n1: "t1 = t @ n1" "list_all P n1" by blast
  show "\<exists>new. snd (bind_io m f t) = t @ new \<and> list_all P new"
  proof (cases r)
    case (Inl e)
    with m n1 show ?thesis by (simp add: bind_io_apply)
  next
    case (Inr x)
    obtain r2 t2 where f: "f x t1 = (r2, t2)" by (cases "f x t1")
    from emitsD[OF assms(2) f] obtain n2 where "t2 = t1 @ n2" "list_all P n2" by blast
    with Inr m n1 f show ?thesis by (simp add: bind_io_apply)
  qed
qed

lemma emits_catch:
  assumes "emits P m" "\<And>e. emits P (h e)"
  shows "emits P (try_catch m h)"
  unfolding emits_def
proof
  fix t
  obtain r t1 where m: "m t = (r, t1)" by (cases "m t")
  from emitsD[OF assms(1) m] obtain n1 where n1: "t1 = t @ n1" "list_all P n1" by blast
  show "\<exists>new. snd (try_catch m h t) = t @ new \<and> list_all P new"
  proof (cases r)
    case (Inr x)
    with m n1 show ?thesis by (simp add: try_catch_apply)
  next
    case (Inl e)
    obtain r2 t2 where f: "h e t1 = (r2, t2)" by (cases "h e t1")
    from emitsD[OF assms(2) f] obtain n2 where "t2 = t1 @ n2" "list_all P n2" by blast
    with Inl m n1 f show ?thesis by (simp add: try_catch_apply)
  qed
qed

lemma emits_if: "emits P a \<Longrightarrow> emits P b \<Longrightarrow> emits P (if c then a else b)"
  by simp

lemma emits_openGitClient: "emits quiet (openGitClient env b d)"
  unfolding openGitClient_def op_defs
  by (intro emits_bind emits_if emits_perform emits_return) (simp_all add: quiet_def)

lemma emits_initializeRepository: "emits quiet (initializeRepository env repo acct)"
  unfolding initializeRepository_def op_defs Let_def
  by (intro emits_bind emits_catch emits_if emits_perform emits_return)
     (simp_all add: quiet_def)

lemma emits_checkForUpstreamChanges: "emits quiet (checkForUpstreamChanges env acct)"
  unfolding checkForUpstreamChanges_def op_defs
  by (intro emits_bind emits_catch emits_if emits_perform emits_return)
     (simp_all add: quiet_def)

lemma emits_case_option:
  "emits P b \<Longrightarrow> (\<And>x. emits P (f x)) \<Longrightarrow>
   emits P (case v of None \<Rightarrow> b | Some x \<Rightarrow> f x)"
  by (cases v) simp_all

lemma emits_initializeLLMClient: "emits (\<lambda>c. True) (initializeLLMClient env l)"
  unfolding initializeLLMClient_def new_OpenAI_def
  by (intro emits_case_option emits_if emits_throw emits_perform) simp

lemma emits_resolveFile: "emits (\<lambda>c. True) (resolveFile env d f)"
  unfolding resolveFile_def op_defs Let_def
  by (intro emits_bind emits_catch emits_if emits_perform emits_return) simp_all

lemma emits_resolveFiles: "emits (\<lambda>c. True) (resolveFiles env d fs)"
  by (induction fs) (auto intro!: emits_bind emits_catch emits_if emits_return emits_resolveFile)

lemma emits_resolveConflicts: "emits (\<lambda>c. True) (resolveConflicts env d fs l)"
  unfolding resolveConflicts_def op_defs
  by (intro emits_bind emits_catch emits_if emits_perform emits_return emits_case_option
        emits_initializeLLMClient emits_resolveFiles) simp_all

lemma drift_check_start_quiet:
  assumes "drift_check_start env repo acct config t0 = Some t2"
  shows "\<exists>new. t2 = t0 @ new \<and> list_all quiet new"
proof -
  from assms obtain t1 where
    1: "openGitClient env (path_resolve env (reposBaseDir config))
          (repoDir_of env config acct repo) t0 = (Inr (), t1)"
    and 2: "initializeRepository env repo acct t1 = (Inr True, t2)"
    by (auto simp: drift_check_start_def
        split: if_splits prod.splits sum.splits bool.splits)
  from emitsD[OF emits_openGitClient 1] obtain n1 where
    "t1 = t0 @ n1" "list_all quiet n1" by blast
  moreover from emitsD[OF emits_initializeRepository 2] obtain n2 where
    "t2 = t1 @ n2" "list_all quiet n2" by blast
  ultimately show ?thesis by simp
qed

lemma merge_start_quiet:
  assumes "merge_start env repo acct config t0 = Some t3"
  shows "\<exists>new. t3 = t0 @ new \<and> list_all quiet new"
proof -
  from assms obtain t2 where
    1: "drift_check_start env repo acct config t0 = Some t2"
    and 2: "checkForUpstreamChanges env acct t2 = (Inr True, t3)"
    by (auto simp: merge_start_def split: option.splits prod.splits sum.splits bool.splits)
  from drift_check_start_quiet[OF 1] obtain n1 where
    "t2 = t0 @ n1" "list_all quiet n1" by blast
  moreover from emitsD[OF emits_checkForUpstreamChanges 2] obtain n2 where
    "t3 = t2 @ n2" "list_all quiet n2" by blast
  ultimately show ?thesis by simp
qed

lemma list_all_quiet_filter_push: "list_all quiet new \<Longrightarrow> filter is_push new = []"
  by (induction new) (auto simp: quiet_def)

subsection \<open>The resolver returns, and how\<close>

lemma resolveFiles_returns: "\<exists>b t'. resolveFiles env d fs t = (Inr b, t')"
proof (induction fs arbitrary: t)
  case Nil
  show ?case by (auto simp: return_io_apply)
next
  case (Cons f fs)
  obtain r t1 where 1: "resolveFile env d f t = (r, t1)" by (cases "resolveFile env d f t")
  show ?case
  proof (cases r)
    case (Inl e)
    with 1 show ?thesis by (auto simp: io_simps)
  next
    case (Inr b)
    with 1 Cons[of t1] show ?thesis by (cases b) (auto simp: io_simps)
  qed
qed

lemma resolveConflicts_returns: "\<exists>r t'. resolveConflicts env d fs l t = (Inr r, t')"
proof -
  obtain r0 t1 where 0: "initializeLLMClient env l (t @ [ResolveConflicts fs]) = (r0, t1)"
    by (cases "initializeLLMClient env l (t @ [ResolveConflicts fs])")
  obtain b t2 where 1: "resolveFiles env d fs t1 = (Inr b, t2)"
    using resolveFiles_returns by blast
  show ?thesis
    using 0 1 by (cases r0) (auto simp: resolveConflicts_def io_simps op_defs split: sum.splits)
qed

lemma resolveConflicts_failure_error:
  assumes "resolveConflicts env d fs l t = (Inr r, t')" "\<not> rr_success r"
  shows "\<exists>e. rr_error r = Some e"
proof -
  obtain r0 t1 where 0: "initializeLLMClient env l (t @ [ResolveConflicts fs]) = (r0, t1)"
    by (cases "initializeLLMClient env l (t @ [ResolveConflicts fs])")
  obtain b t2 where 1: "resolveFiles env d fs t1 = (Inr b, t2)"
    using resolveFiles_returns by blast
  show ?thesis
    using 0 1 assms
    by (cases r0)
       (auto simp: resolveConflicts_def io_simps op_defs split: sum.splits if_splits)
qed

lemma resolveConflicts_success_commit:
  assumes "resolveConflicts env d fs l t = (Inr r, t')" "rr_success r" "fs \<noteq> []"
  shows "\<exists>pre. t' = pre @ [Commit (''Automated merge conflict resolution by LLM for '' @
                         string_of_nat (length fs) @ '' file(s)'')]"
proof -
  obtain r0 t1 where 0: "initializeLLMClient env l (t @ [ResolveConflicts fs]) = (r0, t1)"
    by (cases "initializeLLMClient env l (t @ [ResolveConflicts fs])")
  obtain b t2 where 1: "resolveFiles env d fs t1 = (Inr b, t2)"
    using resolveFiles_returns by blast
  show ?thesis
    using 0 1 assms
    by (cases r0)
       (auto simp: resolveConflicts_def io_simps op_defs split: sum.splits if_splits)
qed

subsection \<open>The branches of mergeUpstreamChanges\<close>

lemma mergeUpstreamChanges_returns:
  "\<exists>mr t'. mergeUpstreamChanges env d acct config t = (Inr mr, t')"
  unfolding mergeUpstreamChanges_def
  by (simp add: io_simps merge_failed_def op_defs split: sum.splits prod.splits)

lemma merge_after_resolver:
  assumes "git_checkout env (devBranch acct) t0 = (Inr (), t1)"
      and "git_revParse env [''HEAD''] t1 = (Inr originalHead, t2)"
      and "git_merge env [''upstream/'' @ upstreamBranch acct] t2 = (Inl mergeError, t3)"
      and "js_includes mergeError ''CONFLICTS''"
      and "git_status env t3 = (Inr conflictedFiles, t4)"
      and "conflictedFiles \<noteq> []"
      and "resolveConflicts env repoDir conflictedFiles (llm config) t4 = (Inr r, t5)"
  shows "mergeUpstreamChanges env repoDir acct config t0 =
     (if rr_success r then
        (Inr (case push_r env t5 [''origin'', devBranch acct] of
                Inr u \<Rightarrow>
                  \<lparr>mr_success = True, mr_hadConflicts = True, mr_usedLLM = True,
                   mr_message = Some (''Successfully resolved '' @
                      string_of_nat (length conflictedFiles) @
                      '' conflicts and pushed changes''),
                   mr_error = None, mr_testsStatus = None\<rparr>
              | Inl e \<Rightarrow>
                  \<lparr>mr_success = False, mr_hadConflicts = True, mr_usedLLM = True,
                   mr_message = None, mr_error = Some (''Failed to merge: '' @ e),
                   mr_testsStatus = None\<rparr>),
         t5 @ [Push [''origin'', devBranch acct]])
      else
        (Inr \<lparr>mr_success = False, mr_hadConflicts = True, mr_usedLLM = True,
              mr_message = Some ''Merge aborted due to unresolvable conflicts'',
              mr_error = Some (''Failed to resolve conflicts: '' @ js_str (rr_error r)),
              mr_testsStatus = None\<rparr>,
         t5 @ [Reset [''--hard'', originalHead]]))"
  using assms
  by (simp add: mergeUpstreamChanges_def bind_io_apply try_catch_apply return_io_apply
      git_push_def git_reset_def perform_apply merge_failed_def split: sum.splits)

lemma no_files_identified:
  assumes "git_checkout env (devBranch acct) t0 = (Inr (), t1)"
      and "git_revParse env [''HEAD''] t1 = (Inr originalHead, t2)"
      and "git_merge env [''upstream/'' @ upstreamBranch acct] t2 = (Inl mergeError, t3)"
      and "js_includes mergeError ''CONFLICTS''"
      and "git_status env t3 = (Inr [], t4)"
  shows "mergeUpstreamChanges env repoDir acct config t0 =
           (Inr \<lparr>mr_success = False, mr_hadConflicts = True, mr_usedLLM = False,
                 mr_message = None,
                 mr_error = Some ''Failed to merge: Failed to identify conflicted files'',
                 mr_testsStatus = None\<rparr>, t4)"
  using assms
  by (simp add: mergeUpstreamChanges_def bind_io_apply try_catch_apply return_io_apply
      throw_io_apply merge_failed_def split: sum.splits)

lemma clean_merge_push:
  assumes "git_checkout env (devBranch acct) t0 = (Inr (), t1)"
      and "git_revParse env [''HEAD''] t1 = (Inr originalHead, t2)"
      and "git_merge env [''upstream/'' @ upstreamBranch acct] t2 = (Inr (), t3)"
      and "git_push env [''origin'', devBranch acct] t3 = (Inr (), t4)"
  shows "mergeUpstreamChanges env repoDir acct config t0 =
           (Inr \<lparr>mr_success = True, mr_hadConflicts = False, mr_usedLLM = False,
                 mr_message = Some ''Successfully merged and pushed upstream changes'',
                 mr_error = None, mr_testsStatus = None\<rparr>, t4)"
  using assms
  by (simp add: mergeUpstreamChanges_def bind_io_apply try_catch_apply return_io_apply)

text \<open>
  The push shares its \<^verbatim>\<open>try\<close> with the merge. When the merge returned and the push
  throws, the error of the push is handled as an error of the merge: the result is either a
  failure or, when the message contains \<^verbatim>\<open>CONFLICTS\<close>, a result of the conflict branch,
  with \<^verbatim>\<open>hadConflicts\<close> true.
\<close>

lemma push_throws:
  assumes "git_checkout env (devBranch acct) t0 = (Inr (), t1)"
      and "git_revParse env [''HEAD''] t1 = (Inr originalHead, t2)"
      and "git_merge env [''upstream/'' @ upstreamBranch acct] t2 = (Inr (), t3)"
      and "push_r env t3 [''origin'', devBranch acct] = Inl e"
  shows "\<exists>mr post. mergeUpstreamChanges env repoDir acct config t0 =
           (Inr mr, t3 @ [Push [''origin'', devBranch acct]] @ post) \<and>
           (mr_success mr \<longrightarrow> mr_hadConflicts mr)"
proof (cases "js_includes e ''CONFLICTS''")
  case False
  with assms show ?thesis
    by (simp add: mergeUpstreamChanges_def bind_io_apply try_catch_apply return_io_apply
        throw_io_apply git_push_def perform_apply merge_failed_def)
next
  case True
  let ?tp = "t3 @ [Push [''origin'', devBranch acct]]"
  show ?thesis
  proof (cases "status_r env ?tp")
    case (Inl se)
    with True assms show ?thesis
      by (simp add: mergeUpstreamChanges_def bind_io_apply try_catch_apply return_io_apply
          throw_io_apply git_push_def git_status_def perform_apply merge_failed_def)
  next
    case (Inr files)
    show ?thesis
    proof (cases "files = []")
      case True
      with Inr \<open>js_includes e ''CONFLICTS''\<close> assms show ?thesis
        by (simp add: mergeUpstreamChanges_def bind_io_apply try_catch_apply return_io_apply
            throw_io_apply git_push_def git_status_def perform_apply merge_failed_def)
    next
      case False
      obtain r t6 where r: "resolveConflicts env repoDir files (llm config) (?tp @ [Status]) =
          (Inr r, t6)"
        using resolveConflicts_returns by blast
      from emitsD[OF emits_resolveConflicts r] obtain n where n: "t6 = (?tp @ [Status]) @ n"
        by blast
      from False Inr \<open>js_includes e ''CONFLICTS''\<close> assms r show ?thesis
        unfolding n
        by (cases "rr_success r"; cases "push_r env ((?tp @ [Status]) @ n) [''origin'', devBranch acct]")
           (simp_all add: mergeUpstreamChanges_def bind_io_apply try_catch_apply return_io_apply
            throw_io_apply git_push_def git_status_def git_reset_def perform_apply merge_failed_def
            split: sum.splits)
    qed
  qed
qed

subsection \<open>From the merge result to the outcome of syncRepository\<close>

lemma syncRepository_after_merge:
  assumes "merge_start env repo acct config t0 = Some t3"
      and "mergeUpstreamChanges env (repoDir_of env config acct repo) acct config t3 =
             (Inr mr, t4)"
  shows "syncRepository env repo acct config t0 =
     (Inr \<lparr>repository = repo, account = name acct, success = mr_success mr,
           status = (if mr_success mr then ''synced'' else ''error''),
           hadConflicts = Some (mr_hadConflicts mr), usedLLM = Some (mr_usedLLM mr),
           testsStatus =
             (if runTestsAfterMerge config \<and> mr_success mr
              then Some (case runTests_r env t4 (repoDir_of env config acct repo) of
                           Inr True \<Rightarrow> ''passed''
                         | Inr False \<Rightarrow> ''failed''
                         | Inl e \<Rightarrow> ''error'')
              else mr_testsStatus mr),
           message = mr_message mr, error = mr_error mr\<rparr>,
      if runTestsAfterMerge config \<and> mr_success mr
      then t4 @ [RunTests (repoDir_of env config acct repo)] else t4)"
  using assms
  by (auto simp: merge_start_def drift_check_start_def syncRepository_def Let_def io_simps
      runTests_def split: option.splits prod.splits sum.splits bool.splits if_splits)

lemma syncRepository_after_merge_fields:
  assumes "merge_start env repo acct config t0 = Some t3"
      and "mergeUpstreamChanges env (repoDir_of env config acct repo) acct config t3 =
             (Inr mr, t4)"
  shows "\<exists>out post.
           syncRepository env repo acct config t0 = (Inr out, t4 @ post) \<and>
           (post = [] \<or> post = [RunTests (repoDir_of env config acct repo)]) \<and>
           repository out = repo \<and> account out = name acct \<and>
           success out = mr_success mr \<and>
           status out = (if mr_success mr then ''synced'' else ''error'') \<and>
           hadConflicts out = Some (mr_hadConflicts mr) \<and>
           usedLLM out = Some (mr_usedLLM mr) \<and>
           message out = mr_message mr \<and> error out = mr_error mr"
proof (cases "runTestsAfterMerge config \<and> mr_success mr")
  case True
  then show ?thesis
    unfolding syncRepository_after_merge[OF assms] by simp
next
  case False
  then show ?thesis
    unfolding syncRepository_after_merge[OF assms] by auto
qed

lemma syncRepository_no_drift:
  assumes "drift_check_start env repo acct config t0 = Some t2"
      and "checkForUpstreamChanges env acct t2 = (Inr False, t3)"
  shows "syncRepository env repo acct config t0 =
     (Inr \<lparr>repository = repo, account = name acct, success = True, status = ''skipped'',
           hadConflicts = None, usedLLM = None, testsStatus = None,
           message = Some ''No upstream changes to sync'', error = None\<rparr>, t3)"
  using assms
  by (auto simp: drift_check_start_def syncRepository_def Let_def io_simps
      split: option.splits prod.splits sum.splits bool.splits if_splits)

subsection \<open>The sample runs\<close>

lemma sample_merge_start:
  "env \<in> {calm_env, push_rejected_env, conflict_env, conflict_push_rejected_env,
           unresolved_env, reset_fails_env, no_files_env} \<Longrightarrow>
   merge_start env ''octo/hello'' sample_account sample_config [] =
     Some [ExistsSync ''/srv/repositories'', NewGitClient ''/srv/repositories/me-octo-hello'',
           CheckIsRepo, GetRemotes, Fetch [''--all''], Checkout ''dev'',
           RevList [''dev..upstream/main'']]"
  by (auto simp: eval_simps)

lemma sample_unresolved:
  "env \<in> {unresolved_env, reset_fails_env} \<Longrightarrow>
   resolveConflicts env ''/srv/repositories/me-octo-hello'' [''a.txt''] (Some sample_llm) t =
     (Inr \<lparr>rr_success = False, rr_error = Some ''LLM failed to resolve all conflicts.''\<rparr>,
      t @ [ResolveConflicts [''a.txt''], NewOpenAI,
           ReadFile ''/srv/repositories/me-octo-hello/a.txt'',
           GetFileContent ''MERGE_HEAD'' ''a.txt'', GetFileContent ''HEAD'' ''a.txt'',
           GenerateText (conflict_prompt ''a.txt'' ''x'' ''x'' ''y'')])"
  by (auto simp: eval_simps)

lemma sample_resolved:
  "env \<in> {conflict_env, conflict_push_rejected_env} \<Longrightarrow>
   resolveConflicts env ''/srv/repositories/me-octo-hello'' [''a.txt''] (Some sample_llm) t =
     (Inr \<lparr>rr_success = True, rr_error = None\<rparr>,
      t @ [ResolveConflicts [''a.txt''], NewOpenAI,
           ReadFile ''/srv/repositories/me-octo-hello/a.txt'',
           GetFileContent ''MERGE_HEAD'' ''a.txt'', GetFileContent ''HEAD'' ''a.txt'',
           GenerateText (conflict_prompt ''a.txt'' ''x'' ''x'' ''y''),
           WriteFile ''/srv/repositories/me-octo-hello/a.txt'' ''z'', Add [''a.txt''],
           Commit ''Automated merge conflict resolution by LLM for 1 file(s)''])"
  by (auto simp: eval_simps)

lemma sample_repoDir:
  "env \<in> {calm_env, push_rejected_env, conflict_env, conflict_push_rejected_env,
           unresolved_env, reset_fails_env, no_files_env, no_drift_env, broken_dir_env} \<Longrightarrow>
   repoDir_of env sample_config sample_account ''octo/hello'' = ''/srv/repositories/me-octo-hello''"
  by (auto simp: eval_simps)

subsection \<open>Claim C1: the rollback when the resolver fails\<close>

text \<open>
  Claim C1. When the merge raises a conflict and the resolver reports failure, an abort of
  the merge is to be attempted before any reset, a hard reset to the commit recorded before
  the merge is the fallback when the abort fails, and a failure of both is to be surfaced.
  This \<^verbatim>\<open>mergeUpstreamChanges\<close> announces the abort (the comments read
  \<^verbatim>\<open>abort merge and roll back\<close> and \<^verbatim>\<open>Abort merge\<close>) and the test
  \<^verbatim>\<open>should abort merge if LLM conflict resolution fails\<close> expects
  \<^verbatim>\<open>merge(['--abort'])\<close>, but the only call it makes after the resolver has returned is
  \<^verbatim>\<open>git.reset(['--hard', originalHead])\<close>, inside a \<^verbatim>\<open>try\<close> whose \<^verbatim>\<open>catch\<close> only
  logs. The run in \<open>reset_fails_env\<close>: the merge throws \<^verbatim>\<open>CONFLICTS: a.txt\<close>, the status
  lists \<^verbatim>\<open>a.txt\<close>, the text generation fails, so the resolver reports failure. The calls
  end with the hard reset to the recorded commit; no \<^verbatim>\<open>merge --abort\<close> is among them; the
  reset throws, and the result is the one of the run of \<open>unresolved_env\<close>, in which the
  reset returns.
\<close>

theorem C1_abort_never_attempted:
  "mergeUpstreamChanges reset_fails_env ''/srv/repositories/me-octo-hello'' sample_account
       sample_config [] =
     (Inr \<lparr>mr_success = False, mr_hadConflicts = True, mr_usedLLM = True,
           mr_message = Some ''Merge aborted due to unresolvable conflicts'',
           mr_error = Some ''Failed to resolve conflicts: LLM failed to resolve all conflicts.'',
           mr_testsStatus = None\<rparr>,
      [Checkout ''dev'', RevParse [''HEAD''], Merge [''upstream/main''], Status,
       ResolveConflicts [''a.txt''], NewOpenAI,
       ReadFile ''/srv/repositories/me-octo-hello/a.txt'',
       GetFileContent ''MERGE_HEAD'' ''a.txt'', GetFileContent ''HEAD'' ''a.txt'',
       GenerateText (conflict_prompt ''a.txt'' ''x'' ''x'' ''y''),
       Reset [''--hard'', ''abc123'']]) \<and>
   reset_r reset_fails_env
     (butlast (snd (mergeUpstreamChanges reset_fails_env ''/srv/repositories/me-octo-hello''
                      sample_account sample_config [])))
     [''--hard'', ''abc123''] = Inl ''index locked'' \<and>
   Merge [''--abort''] \<notin> set (snd (mergeUpstreamChanges reset_fails_env
                      ''/srv/repositories/me-octo-hello'' sample_account sample_config [])) \<and>
   fst (mergeUpstreamChanges reset_fails_env ''/srv/repositories/me-octo-hello''
          sample_account sample_config []) =
   fst (mergeUpstreamChanges unresolved_env ''/srv/repositories/me-octo-hello''
          sample_account sample_config [])"
  by (simp add: eval_simps)

subsection \<open>Claim C2: isolation and counting in the batch\<close>

lemma syncOne_eq:
  "syncOne env config acct repo r t =
     (Inr (tally r (recorded acct repo (fst (syncRepository env repo acct config t)))),
      snd (syncRepository env repo acct config t))"
proof (cases "syncRepository env repo acct config t")
  case (Pair res t')
  then show ?thesis
    by (cases res) (simp_all add: syncOne_def io_simps tally_def recorded_def Let_def)
qed

lemma syncRepos_eq:
  "syncRepos env config acct rs r t =
     (Inr (foldl tally r (fst (isolated_outcomes env config (map (Pair acct) rs) t))),
      snd (isolated_outcomes env config (map (Pair acct) rs) t))"
proof (induction rs arbitrary: r t)
  case Nil
  show ?case by (simp add: return_io_apply)
next
  case (Cons repo rest)
  show ?case
    by (simp add: bind_io_apply syncOne_eq Cons split: prod.splits)
qed

lemma isolated_outcomes_append:
  "isolated_outcomes env config (xs @ ys) t =
     (case isolated_outcomes env config xs t of
        (o1, t1) \<Rightarrow>
          (case isolated_outcomes env config ys t1 of
             (o2, t2) \<Rightarrow> (o1 @ o2, t2)))"
  by (induction xs arbitrary: t) (auto split: prod.splits)

lemma syncAccounts_eq:
  "syncAccounts env config opts accts r t =
     (Inr (foldl tally r (fst (isolated_outcomes env config
             (concat (map (\<lambda>acct. map (Pair acct) (selected_repos opts acct)) accts)) t))),
      snd (isolated_outcomes env config
             (concat (map (\<lambda>acct. map (Pair acct) (selected_repos opts acct)) accts)) t))"
proof (induction accts arbitrary: r t)
  case Nil
  show ?case by (simp add: return_io_apply)
next
  case (Cons acct rest)
  show ?case
    by (simp add: bind_io_apply syncRepos_eq Cons isolated_outcomes_append split: prod.splits)
qed

lemma details_foldl_tally: "details (foldl tally r outs) = details r @ outs"
  by (induction outs arbitrary: r) (simp_all add: tally_def Let_def)

lemma failedRepos_foldl_tally:
  "failedRepos (foldl tally r outs) =
     failedRepos r + length (filter (\<lambda>out. \<not> success out) outs)"
  by (induction outs arbitrary: r) (simp_all add: tally_def Let_def)

lemma batch_success_foldl_tally:
  "batch_success (foldl tally r outs) = (batch_success r \<and> list_all success outs)"
  by (induction outs arbitrary: r) (auto simp: tally_def Let_def)

lemma length_isolated_outcomes:
  "length (fst (isolated_outcomes env config pairs t)) = length pairs"
proof (induction pairs arbitrary: t)
  case Nil
  show ?case by simp
next
  case (Cons p pairs)
  obtain acct repo where p: "p = (acct, repo)" by (cases p)
  obtain r t1 where 1: "syncRepository env repo acct config t = (r, t1)"
    by (cases "syncRepository env repo acct config t")
  obtain outs t2 where 2: "isolated_outcomes env config pairs t1 = (outs, t2)"
    by (cases "isolated_outcomes env config pairs t1")
  from Cons[of t1] 2 have "length outs = length pairs" by simp
  with p 1 2 show ?case by simp
qed

text \<open>
  Claim C2. For every batch, an exception thrown while one repository is processed is
  caught by \<^verbatim>\<open>startSync\<close>, converted into an outcome with \<^verbatim>\<open>status=error\<close> that
  carries the message of the exception, and does not prevent any later repository from
  being processed; after the batch \<^verbatim>\<open>failedRepos\<close> is the number of outcomes without
  success, and any such outcome makes the \<^verbatim>\<open>success\<close> flag of the batch false. A batch
  is a run in which the account filter selects at least one account: otherwise
  \<^verbatim>\<open>startSync\<close> returns before any repository is touched. The list of outcomes is the
  one of \<open>isolated_outcomes\<close>: one outcome per selected pair, in order, each run started
  from the trace the one before left, whether that one returned or threw.
\<close>

theorem C2_batch_isolation:
  assumes "selected_accounts config opts \<noteq> []"
  shows "\<exists>r t'.
           startSync env config opts t = (Inr (Summary r), t') \<and>
           details r = fst (isolated_outcomes env config (selected_pairs config opts) t) \<and>
           length (details r) = length (selected_pairs config opts) \<and>
           failedRepos r = length (filter (\<lambda>out. \<not> success out) (details r)) \<and>
           batch_success r = list_all success (details r)"
proof -
  let ?r = "foldl tally
      \<lparr>batch_success = True, syncedRepos = 0, failedRepos = 0, skippedRepos = 0, details = []\<rparr>
      (fst (isolated_outcomes env config (selected_pairs config opts) t))"
  have "\<exists>t'. startSync env config opts t = (Inr (Summary ?r), t')"
    using assms
    by (simp add: startSync_def io_simps syncAccounts_eq selected_pairs_def sendSyncReport_def
        split: sum.splits)
  moreover have "details ?r = fst (isolated_outcomes env config (selected_pairs config opts) t)"
    by (simp add: details_foldl_tally)
  moreover have "failedRepos ?r = length (filter (\<lambda>out. \<not> success out) (details ?r))"
    by (simp add: details_foldl_tally failedRepos_foldl_tally)
  moreover have "batch_success ?r = list_all success (details ?r)"
    by (simp add: details_foldl_tally batch_success_foldl_tally)
  ultimately show ?thesis
    by (metis length_isolated_outcomes)
qed

lemmas eval_simps2 = eval_simps startSync_def syncAccounts.simps syncRepos.simps syncOne_def
  selected_accounts_def selected_repos_def selected_pairs_def recorded_def

theorem C2_batch_isolation_witness:
  "selected_accounts sample_config no_filter \<noteq> [] \<and>
   (\<exists>r t'.
      startSync broken_dir_env sample_config no_filter [] = (Inr (Summary r), t') \<and>
      details r =
        [\<lparr>repository = ''octo/hello'', account = ''me'', success = False, status = ''error'',
          hadConflicts = None, usedLLM = None, testsStatus = None, message = None,
          error = Some ''Cannot use simple-git on a directory that does not exist''\<rparr>,
         \<lparr>repository = ''octo/world'', account = ''me'', success = True, status = ''skipped'',
          hadConflicts = None, usedLLM = None, testsStatus = None,
          message = Some ''No upstream changes to sync'', error = None\<rparr>] \<and>
      failedRepos r = 1 \<and> \<not> batch_success r)"
proof -
  have 1: "selected_accounts sample_config no_filter \<noteq> []"
    by (simp add: eval_simps2)
  have 2: "fst (isolated_outcomes broken_dir_env sample_config
               (selected_pairs sample_config no_filter) []) =
        [\<lparr>repository = ''octo/hello'', account = ''me'', success = False, status = ''error'',
          hadConflicts = None, usedLLM = None, testsStatus = None, message = None,
          error = Some ''Cannot use simple-git on a directory that does not exist''\<rparr>,
         \<lparr>repository = ''octo/world'', account = ''me'', success = True, status = ''skipped'',
          hadConflicts = None, usedLLM = None, testsStatus = None,
          message = Some ''No upstream changes to sync'', error = None\<rparr>]"
    by (simp add: eval_simps2)
  from C2_batch_isolation[OF 1, of broken_dir_env "[]"] obtain r t' where
    "startSync broken_dir_env sample_config no_filter [] = (Inr (Summary r), t')"
    "details r = fst (isolated_outcomes broken_dir_env sample_config
               (selected_pairs sample_config no_filter) [])"
    "failedRepos r = length (filter (\<lambda>out. \<not> success out) (details r))"
    "batch_success r = list_all success (details r)"
    by blast
  with 1 2 show ?thesis by simp
qed

subsection \<open>Claim C3: commit, then push, when the resolver succeeds\<close>

text \<open>
  Claim C3 says that, when the merge raises a conflict and the resolver reports success, a
  commit of the resolution and a push of the development branch are both performed, the
  commit before the push, and that the outcome has \<^verbatim>\<open>usedLLM=true\<close> and
  \<^verbatim>\<open>success=true\<close>. The commit is the last call of \<^verbatim>\<open>resolveConflicts\<close>, and
  \<^verbatim>\<open>mergeUpstreamChanges\<close> calls the push next; but the push may throw, and then the
  outer \<^verbatim>\<open>catch\<close> returns a failure. So the claim as amended: the trace continues with
  the commit of the resolver and then \<^verbatim>\<open>push(['origin', devBranch])\<close>; the outcome has
  \<^verbatim>\<open>hadConflicts=true\<close> and \<^verbatim>\<open>usedLLM=true\<close>; and \<^verbatim>\<open>success\<close> is true, with
  \<^verbatim>\<open>status=synced\<close>, exactly when that push returns normally.
\<close>

theorem C3_commit_then_push:
  assumes "merge_start env repo acct config t0 = Some t1"
      and "git_checkout env (devBranch acct) t1 = (Inr (), t2)"
      and "git_revParse env [''HEAD''] t2 = (Inr originalHead, t3)"
      and "git_merge env [''upstream/'' @ upstreamBranch acct] t3 = (Inl mergeError, t4)"
      and "js_includes mergeError ''CONFLICTS''"
      and "git_status env t4 = (Inr conflictedFiles, t5)"
      and "conflictedFiles \<noteq> []"
      and "resolveConflicts env (repoDir_of env config acct repo) conflictedFiles (llm config) t5
             = (Inr r, t6)"
      and "rr_success r"
  shows "\<exists>out t' pre post.
           syncRepository env repo acct config t0 = (Inr out, t') \<and>
           t6 = pre @ [Commit (''Automated merge conflict resolution by LLM for '' @
                         string_of_nat (length conflictedFiles) @ '' file(s)'')] \<and>
           t' = t6 @ [Push [''origin'', devBranch acct]] @ post \<and>
           usedLLM out = Some True \<and> hadConflicts out = Some True \<and>
           success out = (push_r env t6 [''origin'', devBranch acct] = Inr ()) \<and>
           status out = (if success out then ''synced'' else ''error'')"
proof -
  from resolveConflicts_success_commit[OF assms(8,9,7)] obtain pre where
    pre: "t6 = pre @ [Commit (''Automated merge conflict resolution by LLM for '' @
                         string_of_nat (length conflictedFiles) @ '' file(s)'')]" by blast
  obtain mr where m: "mergeUpstreamChanges env (repoDir_of env config acct repo) acct config t1 =
      (Inr mr, t6 @ [Push [''origin'', devBranch acct]])"
    and mr: "mr_usedLLM mr" "mr_hadConflicts mr"
      "mr_success mr = (push_r env t6 [''origin'', devBranch acct] = Inr ())"
    using merge_after_resolver[OF assms(2-8)] assms(9)
    by (cases "push_r env t6 [''origin'', devBranch acct]") auto
  from syncRepository_after_merge_fields[OF assms(1) m] obtain out post where
    "syncRepository env repo acct config t0 =
       (Inr out, (t6 @ [Push [''origin'', devBranch acct]]) @ post)"
    "success out = mr_success mr"
    "status out = (if mr_success mr then ''synced'' else ''error'')"
    "hadConflicts out = Some (mr_hadConflicts mr)" "usedLLM out = Some (mr_usedLLM mr)"
    by blast
  with mr pre show ?thesis
    by (intro exI[of _ out] exI[of _ "(t6 @ [Push [''origin'', devBranch acct]]) @ post"]
        exI[of _ pre] exI[of _ post]) simp
qed

theorem C3_commit_then_push_witness:
  "merge_start conflict_env ''octo/hello'' sample_account sample_config [] =
     Some [ExistsSync ''/srv/repositories'', NewGitClient ''/srv/repositories/me-octo-hello'',
           CheckIsRepo, GetRemotes, Fetch [''--all''], Checkout ''dev'',
           RevList [''dev..upstream/main'']] \<and>
   js_includes ''CONFLICTS: a.txt'' ''CONFLICTS'' \<and>
   (\<exists>out t' pre post.
       syncRepository conflict_env ''octo/hello'' sample_account sample_config [] =
         (Inr out, t') \<and>
       t' = pre @ [Commit ''Automated merge conflict resolution by LLM for 1 file(s)'',
                   Push [''origin'', ''dev'']] @ post \<and>
       usedLLM out = Some True \<and> hadConflicts out = Some True \<and> success out \<and>
       status out = ''synced'')"
proof -
  let ?t1 = "[ExistsSync ''/srv/repositories'', NewGitClient ''/srv/repositories/me-octo-hello'',
           CheckIsRepo, GetRemotes, Fetch [''--all''], Checkout ''dev'',
           RevList [''dev..upstream/main'']]"
  let ?t5 = "?t1 @ [Checkout ''dev'', RevParse [''HEAD''], Merge [''upstream/main''], Status]"
  let ?t6 = "?t5 @ [ResolveConflicts [''a.txt''], NewOpenAI,
           ReadFile ''/srv/repositories/me-octo-hello/a.txt'',
           GetFileContent ''MERGE_HEAD'' ''a.txt'', GetFileContent ''HEAD'' ''a.txt'',
           GenerateText (conflict_prompt ''a.txt'' ''x'' ''x'' ''y''),
           WriteFile ''/srv/repositories/me-octo-hello/a.txt'' ''z'', Add [''a.txt''],
           Commit ''Automated merge conflict resolution by LLM for 1 file(s)'']"
  have 1: "merge_start conflict_env ''octo/hello'' sample_account sample_config [] = Some ?t1"
    by (rule sample_merge_start) simp
  have 2: "git_checkout conflict_env (devBranch sample_account) ?t1 =
             (Inr (), ?t1 @ [Checkout ''dev''])"
    by (simp add: eval_simps)
  have 3: "git_revParse conflict_env [''HEAD''] (?t1 @ [Checkout ''dev'']) =
             (Inr ''abc123'', ?t1 @ [Checkout ''dev'', RevParse [''HEAD'']])"
    by (simp add: eval_simps)
  have 4: "git_merge conflict_env [''upstream/'' @ upstreamBranch sample_account]
             (?t1 @ [Checkout ''dev'', RevParse [''HEAD'']]) =
             (Inl ''CONFLICTS: a.txt'',
              ?t1 @ [Checkout ''dev'', RevParse [''HEAD''], Merge [''upstream/main'']])"
    by (simp add: eval_simps)
  have 5: "js_includes ''CONFLICTS: a.txt'' ''CONFLICTS''" by simp
  have 6: "git_status conflict_env
             (?t1 @ [Checkout ''dev'', RevParse [''HEAD''], Merge [''upstream/main'']]) =
             (Inr [''a.txt''], ?t5)"
    by (simp add: eval_simps)
  have 7: "[''a.txt''] \<noteq> []" by simp
  have 8: "resolveConflicts conflict_env
             (repoDir_of conflict_env sample_config sample_account ''octo/hello'')
             [''a.txt''] (llm sample_config) ?t5 =
           (Inr \<lparr>rr_success = True, rr_error = None\<rparr>, ?t6)"
    using sample_resolved[of conflict_env] sample_repoDir[of conflict_env]
    by (simp add: sample_config_def)
  have 9: "rr_success \<lparr>rr_success = True, rr_error = None\<rparr>" by simp
  have 10: "push_r conflict_env ?t6 [''origin'', devBranch sample_account] = Inr ()"
    by (simp add: eval_simps)
  have 11: "string_of_nat (length [''a.txt'']) = ''1''" by (simp add: eval_simps)
  from C3_commit_then_push[OF 1 2 3 4 5 6 7 8 9] obtain out t' pre post where
      "syncRepository conflict_env ''octo/hello'' sample_account sample_config [] = (Inr out, t')"
      "?t6 = pre @ [Commit (''Automated merge conflict resolution by LLM for '' @
                         string_of_nat (length [''a.txt'']) @ '' file(s)'')]"
      "t' = ?t6 @ [Push [''origin'', devBranch sample_account]] @ post"
      "usedLLM out = Some True" "hadConflicts out = Some True"
      "success out = (push_r conflict_env ?t6 [''origin'', devBranch sample_account] = Inr ())"
      "status out = (if success out then ''synced'' else ''error'')"
    by blast
  with 10 have "syncRepository conflict_env ''octo/hello'' sample_account sample_config [] =
         (Inr out, t') \<and>
       t' = butlast ?t6 @ [Commit ''Automated merge conflict resolution by LLM for 1 file(s)'',
                   Push [''origin'', ''dev'']] @ post \<and>
       usedLLM out = Some True \<and> hadConflicts out = Some True \<and> success out \<and>
       status out = ''synced''"
    by (simp add: sample_account_def)
  with 1 5 show ?thesis by blast
qed

text \<open>
  The claim as stated fails in \<open>conflict_push_rejected_env\<close>: the resolver reports success,
  the commit and the push are called in this order, the push is rejected and the outcome
  has \<^verbatim>\<open>success=false\<close>.
\<close>

theorem C3_push_rejected_after_resolution:
  "fst (resolveConflicts conflict_push_rejected_env ''/srv/repositories/me-octo-hello''
          [''a.txt''] (llm sample_config)
          [ExistsSync ''/srv/repositories'', NewGitClient ''/srv/repositories/me-octo-hello'',
           CheckIsRepo, GetRemotes, Fetch [''--all''], Checkout ''dev'',
           RevList [''dev..upstream/main''], Checkout ''dev'', RevParse [''HEAD''],
           Merge [''upstream/main''], Status]) =
     Inr \<lparr>rr_success = True, rr_error = None\<rparr> \<and>
   syncRepository conflict_push_rejected_env ''octo/hello'' sample_account sample_config [] =
     (Inr \<lparr>repository = ''octo/hello'', account = ''me'', success = False,
           status = ''error'', hadConflicts = Some True, usedLLM = Some True,
           testsStatus = None, message = None,
           error = Some ''Failed to merge: remote rejected''\<rparr>,
      [ExistsSync ''/srv/repositories'', NewGitClient ''/srv/repositories/me-octo-hello'',
       CheckIsRepo, GetRemotes, Fetch [''--all''], Checkout ''dev'',
       RevList [''dev..upstream/main''], Checkout ''dev'', RevParse [''HEAD''],
       Merge [''upstream/main''], Status, ResolveConflicts [''a.txt''], NewOpenAI,
       ReadFile ''/srv/repositories/me-octo-hello/a.txt'',
       GetFileContent ''MERGE_HEAD'' ''a.txt'', GetFileContent ''HEAD'' ''a.txt'',
       GenerateText (conflict_prompt ''a.txt'' ''x'' ''x'' ''y''),
       WriteFile ''/srv/repositories/me-octo-hello/a.txt'' ''z'', Add [''a.txt''],
       Commit ''Automated merge conflict resolution by LLM for 1 file(s)'',
       Push [''origin'', ''dev'']])"
  by (simp add: eval_simps)

subsection \<open>Claim C4: a conflict without conflicted files\<close>

text \<open>
  Claim C4. When the merge reports a conflict and the status lists no conflicted file, the
  merge is to be aborted and the run is to fail with the message
  \<^verbatim>\<open>Failed to identify conflicted files for resolution\<close>, without guessing file paths
  from the text of the error. This \<^verbatim>\<open>mergeUpstreamChanges\<close> throws
  \<^verbatim>\<open>Failed to identify conflicted files\<close> there and its outer \<^verbatim>\<open>catch\<close> returns the
  failure: unlike the branch of a failed resolution, which resets, this path makes no
  rollback call, and the merge is left in progress. The run of \<^verbatim>\<open>mergeUpstreamChanges\<close>
  in \<open>no_files_env\<close>: the merge throws \<^verbatim>\<open>CONFLICTS: a.txt\<close> and the status lists
  nothing. The status query is the last call; neither \<^verbatim>\<open>merge --abort\<close> nor a hard
  reset to the recorded commit is among the calls; the error of the result is
  \<^verbatim>\<open>Failed to merge: Failed to identify conflicted files\<close>, which does not contain the
  message of the claim. The resolver is not called.
\<close>

theorem C4_merge_left_in_progress:
  "mergeUpstreamChanges no_files_env ''/srv/repositories/me-octo-hello'' sample_account
       sample_config [] =
     (Inr \<lparr>mr_success = False, mr_hadConflicts = True, mr_usedLLM = False,
           mr_message = None,
           mr_error = Some ''Failed to merge: Failed to identify conflicted files'',
           mr_testsStatus = None\<rparr>,
      [Checkout ''dev'', RevParse [''HEAD''], Merge [''upstream/main''], Status]) \<and>
   revParse_r no_files_env [Checkout ''dev''] [''HEAD''] = Inr ''abc123'' \<and>
   merge_r no_files_env [Checkout ''dev'', RevParse [''HEAD'']] [''upstream/main''] =
     Inl ''CONFLICTS: a.txt'' \<and>
   status_r no_files_env [Checkout ''dev'', RevParse [''HEAD''], Merge [''upstream/main'']] =
     Inr [] \<and>
   Merge [''--abort''] \<notin>
     set (snd (mergeUpstreamChanges no_files_env ''/srv/repositories/me-octo-hello''
                 sample_account sample_config [])) \<and>
   Reset [''--hard'', ''abc123''] \<notin>
     set (snd (mergeUpstreamChanges no_files_env ''/srv/repositories/me-octo-hello''
                 sample_account sample_config [])) \<and>
   filter is_resolve
     (snd (mergeUpstreamChanges no_files_env ''/srv/repositories/me-octo-hello''
             sample_account sample_config [])) = [] \<and>
   \<not> js_includes ''Failed to merge: Failed to identify conflicted files''
        ''Failed to identify conflicted files for resolution''"
  by (simp add: eval_simps)

subsection \<open>Claim C5: the outcome when the resolver fails\<close>

text \<open>
  Claim C5. For every repository pair where the merge raises a conflict and the resolver
  reports failure, the produced outcome has \<^verbatim>\<open>success=false\<close>, \<^verbatim>\<open>status=error\<close>,
  \<^verbatim>\<open>hadConflicts=true\<close>, \<^verbatim>\<open>usedLLM=true\<close>, and its \<^verbatim>\<open>error\<close> field contains the
  resolver's own error text. The hypotheses follow the run: \<^verbatim>\<open>syncRepository\<close> reaches
  the merge, the checkout and the reading of \<^verbatim>\<open>HEAD\<close> succeed, the merge throws an error
  whose message includes \<^verbatim>\<open>CONFLICTS\<close>, the status lists at least one conflicted file
  and \<^verbatim>\<open>resolveConflicts\<close> returns an object with \<^verbatim>\<open>success\<close> false.
\<close>

theorem C5_resolver_failure_outcome:
  assumes "merge_start env repo acct config t0 = Some t1"
      and "git_checkout env (devBranch acct) t1 = (Inr (), t2)"
      and "git_revParse env [''HEAD''] t2 = (Inr originalHead, t3)"
      and "git_merge env [''upstream/'' @ upstreamBranch acct] t3 = (Inl mergeError, t4)"
      and "js_includes mergeError ''CONFLICTS''"
      and "git_status env t4 = (Inr conflictedFiles, t5)"
      and "conflictedFiles \<noteq> []"
      and "resolveConflicts env (repoDir_of env config acct repo) conflictedFiles (llm config) t5
             = (Inr r, t6)"
      and "\<not> rr_success r"
  shows "\<exists>out t' e msg.
           syncRepository env repo acct config t0 = (Inr out, t') \<and>
           \<not> success out \<and> status out = ''error'' \<and>
           hadConflicts out = Some True \<and> usedLLM out = Some True \<and>
           rr_error r = Some e \<and> error out = Some msg \<and> js_includes msg e"
proof -
  from resolveConflicts_failure_error[OF assms(8,9)] obtain e where e: "rr_error r = Some e"
    by blast
  have m: "mergeUpstreamChanges env (repoDir_of env config acct repo) acct config t1 =
        (Inr \<lparr>mr_success = False, mr_hadConflicts = True, mr_usedLLM = True,
              mr_message = Some ''Merge aborted due to unresolvable conflicts'',
              mr_error = Some (''Failed to resolve conflicts: '' @ js_str (rr_error r)),
              mr_testsStatus = None\<rparr>,
         t6 @ [Reset [''--hard'', originalHead]])"
    using merge_after_resolver[OF assms(2-8)] assms(9) by simp
  have inc: "js_includes (''Failed to resolve conflicts: '' @ e) e"
    by (rule js_includes_append)
  show ?thesis
    using syncRepository_after_merge[OF assms(1) m] e inc
    by simp
qed

theorem C5_resolver_failure_outcome_witness:
  "merge_start unresolved_env ''octo/hello'' sample_account sample_config [] =
     Some [ExistsSync ''/srv/repositories'', NewGitClient ''/srv/repositories/me-octo-hello'',
           CheckIsRepo, GetRemotes, Fetch [''--all''], Checkout ''dev'',
           RevList [''dev..upstream/main'']] \<and>
   js_includes ''CONFLICTS: a.txt'' ''CONFLICTS'' \<and>
   (\<exists>out t'.
       syncRepository unresolved_env ''octo/hello'' sample_account sample_config [] =
         (Inr out, t') \<and>
       \<not> success out \<and> status out = ''error'' \<and>
       hadConflicts out = Some True \<and> usedLLM out = Some True \<and>
       (\<exists>msg. error out = Some msg \<and>
              js_includes msg ''LLM failed to resolve all conflicts.''))"
proof -
  let ?t1 = "[ExistsSync ''/srv/repositories'', NewGitClient ''/srv/repositories/me-octo-hello'',
           CheckIsRepo, GetRemotes, Fetch [''--all''], Checkout ''dev'',
           RevList [''dev..upstream/main'']]"
  have 1: "merge_start unresolved_env ''octo/hello'' sample_account sample_config [] = Some ?t1"
    by (rule sample_merge_start) simp
  have 2: "git_checkout unresolved_env (devBranch sample_account) ?t1 =
             (Inr (), ?t1 @ [Checkout ''dev''])"
    by (simp add: eval_simps)
  have 3: "git_revParse unresolved_env [''HEAD''] (?t1 @ [Checkout ''dev'']) =
             (Inr ''abc123'', ?t1 @ [Checkout ''dev'', RevParse [''HEAD'']])"
    by (simp add: eval_simps)
  have 4: "git_merge unresolved_env [''upstream/'' @ upstreamBranch sample_account]
             (?t1 @ [Checkout ''dev'', RevParse [''HEAD'']]) =
             (Inl ''CONFLICTS: a.txt'',
              ?t1 @ [Checkout ''dev'', RevParse [''HEAD''], Merge [''upstream/main'']])"
    by (simp add: eval_simps)
  have 5: "js_includes ''CONFLICTS: a.txt'' ''CONFLICTS''" by simp
  have 6: "git_status unresolved_env
             (?t1 @ [Checkout ''dev'', RevParse [''HEAD''], Merge [''upstream/main'']]) =
             (Inr [''a.txt''],
              ?t1 @ [Checkout ''dev'', RevParse [''HEAD''], Merge [''upstream/main''], Status])"
    by (simp add: eval_simps)
  have 7: "[''a.txt''] \<noteq> []" by simp
  have 8: "resolveConflicts unresolved_env
             (repoDir_of unresolved_env sample_config sample_account ''octo/hello'')
             [''a.txt''] (llm sample_config)
             (?t1 @ [Checkout ''dev'', RevParse [''HEAD''], Merge [''upstream/main''], Status]) =
           (Inr \<lparr>rr_success = False, rr_error = Some ''LLM failed to resolve all conflicts.''\<rparr>,
            (?t1 @ [Checkout ''dev'', RevParse [''HEAD''], Merge [''upstream/main''], Status]) @
             [ResolveConflicts [''a.txt''], NewOpenAI,
              ReadFile ''/srv/repositories/me-octo-hello/a.txt'',
              GetFileContent ''MERGE_HEAD'' ''a.txt'', GetFileContent ''HEAD'' ''a.txt'',
              GenerateText (conflict_prompt ''a.txt'' ''x'' ''x'' ''y'')])"
    using sample_unresolved[of unresolved_env] sample_repoDir[of unresolved_env]
    by (simp add: sample_config_def)
  have 9: "\<not> rr_success \<lparr>rr_success = False,
             rr_error = Some ''LLM failed to resolve all conflicts.''\<rparr>" by simp
  from C5_resolver_failure_outcome[OF 1 2 3 4 5 6 7 8 9] 1 5 show ?thesis
    by (simp del: js_includes.simps)
qed

subsection \<open>Claim C6: the identifiers validateConfig accepts\<close>

text \<open>
  Claim C6. Every \<^verbatim>\<open>fork\<close> or \<^verbatim>\<open>upstream\<close> identifier that \<^verbatim>\<open>validateConfig\<close> accepts
  has exactly one colon overall and exactly one \<^verbatim>\<open>/\<close> before it. The classes
  \<^verbatim>\<open>[^/]\<close> of the pattern admit a colon, so \<^verbatim>\<open>octo/hello:main:x\<close>, with two colons,
  passes: the configuration below is accepted and returned with the two defaults filled
  in.
\<close>

theorem C6_two_colons_accepted:
  "validateConfig two_colon_config =
     Inr (two_colon_config\<lparr>cf_schedule := Some ''0 4 * * *'',
            cf_reposBaseDir := Some ''./repositories''\<rparr>) \<and>
   count_list ''octo/hello:main:x'' CHR '':'' = 2"
  by (simp add: validateConfig_def two_colon_config_def validateRepoEntry_def
      repoBranchRegex_def validateLlm_def sample_llm_def)

subsection \<open>Claim C7: no drift\<close>

text \<open>
  Claim C7. For every repository pair whose drift check finds no upstream commit missing
  from the development branch, \<^verbatim>\<open>syncRepository\<close> returns an outcome with
  \<^verbatim>\<open>status=skipped\<close> and \<^verbatim>\<open>success=true\<close>, and among the calls it made there is no
  merge, no call of the resolver and no push.
\<close>

theorem C7_no_drift_skipped:
  assumes "drift_check_start env repo acct config t0 = Some t1"
      and "checkForUpstreamChanges env acct t1 = (Inr False, t2)"
  shows "\<exists>out t'.
           syncRepository env repo acct config t0 = (Inr out, t') \<and>
           status out = ''skipped'' \<and> success out \<and>
           list_all (\<lambda>c. \<not> is_merge c \<and> \<not> is_resolve c \<and> \<not> is_push c) (calls_since t0 t')"
proof -
  from drift_check_start_quiet[OF assms(1)] obtain n1 where
    n1: "t1 = t0 @ n1" "list_all quiet n1" by blast
  from emitsD[OF emits_checkForUpstreamChanges assms(2)] obtain n2 where
    n2: "t2 = t1 @ n2" "list_all quiet n2" by blast
  from n1 n2 have "list_all quiet (calls_since t0 t2)" by simp
  then have "list_all (\<lambda>c. \<not> is_merge c \<and> \<not> is_resolve c \<and> \<not> is_push c)
      (calls_since t0 t2)"
    by (auto simp: quiet_def list_all_iff)
  with syncRepository_no_drift[OF assms] show ?thesis by simp
qed

theorem C7_no_drift_skipped_witness:
  "drift_check_start no_drift_env ''octo/hello'' sample_account sample_config [] =
     Some [ExistsSync ''/srv/repositories'', NewGitClient ''/srv/repositories/me-octo-hello'',
           CheckIsRepo, GetRemotes, Fetch [''--all'']] \<and>
   checkForUpstreamChanges no_drift_env sample_account
     [ExistsSync ''/srv/repositories'', NewGitClient ''/srv/repositories/me-octo-hello'',
      CheckIsRepo, GetRemotes, Fetch [''--all'']] =
     (Inr False,
      [ExistsSync ''/srv/repositories'', NewGitClient ''/srv/repositories/me-octo-hello'',
       CheckIsRepo, GetRemotes, Fetch [''--all''], Checkout ''dev'',
       RevList [''dev..upstream/main'']]) \<and>
   (\<exists>out t'.
       syncRepository no_drift_env ''octo/hello'' sample_account sample_config [] =
         (Inr out, t') \<and>
       status out = ''skipped'' \<and> success out \<and>
       list_all (\<lambda>c. \<not> is_merge c \<and> \<not> is_resolve c \<and> \<not> is_push c) (calls_since [] t'))"
proof -
  have 1: "drift_check_start no_drift_env ''octo/hello'' sample_account sample_config [] =
     Some [ExistsSync ''/srv/repositories'', NewGitClient ''/srv/repositories/me-octo-hello'',
           CheckIsRepo, GetRemotes, Fetch [''--all'']]"
    by (simp add: eval_simps)
  have 2: "checkForUpstreamChanges no_drift_env sample_account
     [ExistsSync ''/srv/repositories'', NewGitClient ''/srv/repositories/me-octo-hello'',
      CheckIsRepo, GetRemotes, Fetch [''--all'']] =
     (Inr False,
      [ExistsSync ''/srv/repositories'', NewGitClient ''/srv/repositories/me-octo-hello'',
       CheckIsRepo, GetRemotes, Fetch [''--all''], Checkout ''dev'',
       RevList [''dev..upstream/main'']])"
    by (simp add: eval_simps)
  from C7_no_drift_skipped[OF 1 2] 1 2 show ?thesis by blast
qed

subsection \<open>Claim C8: a merge without conflicts\<close>

text \<open>
  Claim C8 says that, for every repository pair with upstream drift whose merge completes
  without conflicts, push is invoked exactly once with \<^verbatim>\<open>(origin, devBranch)\<close> and the
  outcome has \<^verbatim>\<open>status=synced\<close> and \<^verbatim>\<open>hadConflicts=false\<close>. The push follows the
  merge inside the same \<^verbatim>\<open>try\<close> and may throw. So the claim as amended: when the merge
  returns normally, the next call is \<^verbatim>\<open>push(['origin', devBranch])\<close>; the outcome has
  \<^verbatim>\<open>status=synced\<close> together with \<^verbatim>\<open>hadConflicts=false\<close> exactly when that push
  returns normally, and then \<^verbatim>\<open>success\<close> is true and that push is the only push among
  the calls of the run.
\<close>

theorem C8_clean_merge_synced:
  assumes "merge_start env repo acct config t0 = Some t1"
      and "git_checkout env (devBranch acct) t1 = (Inr (), t2)"
      and "git_revParse env [''HEAD''] t2 = (Inr originalHead, t3)"
      and "git_merge env [''upstream/'' @ upstreamBranch acct] t3 = (Inr (), t4)"
  shows "\<exists>out t' post.
           syncRepository env repo acct config t0 = (Inr out, t') \<and>
           t' = t4 @ [Push [''origin'', devBranch acct]] @ post \<and>
           ((status out = ''synced'' \<and> hadConflicts out = Some False) =
              (push_r env t4 [''origin'', devBranch acct] = Inr ())) \<and>
           (push_r env t4 [''origin'', devBranch acct] = Inr () \<longrightarrow>
              success out \<and>
              filter is_push (calls_since t0 t') = [Push [''origin'', devBranch acct]])"
proof (cases "push_r env t4 [''origin'', devBranch acct]")
  case (Inr u)
  from merge_start_quiet[OF assms(1)] obtain n1 where n1: "t1 = t0 @ n1" "list_all quiet n1"
    by blast
  have p: "git_push env [''origin'', devBranch acct] t4 =
      (Inr (), t4 @ [Push [''origin'', devBranch acct]])"
    using Inr by (simp add: git_push_def perform_apply)
  have t4: "t4 = t0 @ n1 @ [Checkout (devBranch acct), RevParse [''HEAD''],
      Merge [''upstream/'' @ upstreamBranch acct]]"
    using assms(2-4) n1(1) by (auto simp: op_defs perform_apply)
  note m = clean_merge_push[OF assms(2-4) p]
  from syncRepository_after_merge_fields[OF assms(1) m] obtain out post where o:
    "syncRepository env repo acct config t0 =
       (Inr out, (t4 @ [Push [''origin'', devBranch acct]]) @ post)"
    "post = [] \<or> post = [RunTests (repoDir_of env config acct repo)]"
    "success out" "status out = ''synced''" "hadConflicts out = Some False"
    by auto
  have "filter is_push (calls_since t0 ((t4 @ [Push [''origin'', devBranch acct]]) @ post)) =
      [Push [''origin'', devBranch acct]]"
    using o(2) list_all_quiet_filter_push[OF n1(2)] by (auto simp: t4 calls_since_def)
  with o Inr show ?thesis by auto
next
  case (Inl e)
  from push_throws[OF assms(2-4) Inl] obtain mr post where
    m: "mergeUpstreamChanges env (repoDir_of env config acct repo) acct config t1 =
          (Inr mr, t4 @ [Push [''origin'', devBranch acct]] @ post)"
    and h: "mr_success mr \<longrightarrow> mr_hadConflicts mr"
    by blast
  from syncRepository_after_merge_fields[OF assms(1) m] obtain out post' where o:
    "syncRepository env repo acct config t0 =
       (Inr out, (t4 @ [Push [''origin'', devBranch acct]] @ post) @ post')"
    "status out = (if mr_success mr then ''synced'' else ''error'')"
    "hadConflicts out = Some (mr_hadConflicts mr)"
    by blast
  from o h Inl show ?thesis by auto
qed

theorem C8_clean_merge_synced_witness:
  "merge_start calm_env ''octo/hello'' sample_account sample_config [] =
     Some [ExistsSync ''/srv/repositories'', NewGitClient ''/srv/repositories/me-octo-hello'',
           CheckIsRepo, GetRemotes, Fetch [''--all''], Checkout ''dev'',
           RevList [''dev..upstream/main'']] \<and>
   push_r calm_env
     [ExistsSync ''/srv/repositories'', NewGitClient ''/srv/repositories/me-octo-hello'',
      CheckIsRepo, GetRemotes, Fetch [''--all''], Checkout ''dev'',
      RevList [''dev..upstream/main''], Checkout ''dev'', RevParse [''HEAD''],
      Merge [''upstream/main'']] [''origin'', ''dev''] = Inr () \<and>
   (\<exists>out t' post.
       syncRepository calm_env ''octo/hello'' sample_account sample_config [] = (Inr out, t') \<and>
       t' = [ExistsSync ''/srv/repositories'', NewGitClient ''/srv/repositories/me-octo-hello'',
             CheckIsRepo, GetRemotes, Fetch [''--all''], Checkout ''dev'',
             RevList [''dev..upstream/main''], Checkout ''dev'', RevParse [''HEAD''],
             Merge [''upstream/main'']] @ [Push [''origin'', ''dev'']] @ post \<and>
       status out = ''synced'' \<and> success out \<and> hadConflicts out = Some False \<and>
       filter is_push (calls_since [] t') = [Push [''origin'', ''dev'']])"
proof -
  let ?t1 = "[ExistsSync ''/srv/repositories'', NewGitClient ''/srv/repositories/me-octo-hello'',
           CheckIsRepo, GetRemotes, Fetch [''--all''], Checkout ''dev'',
           RevList [''dev..upstream/main'']]"
  have 1: "merge_start calm_env ''octo/hello'' sample_account sample_config [] = Some ?t1"
    by (rule sample_merge_start) simp
  have 2: "git_checkout calm_env (devBranch sample_account) ?t1 =
             (Inr (), ?t1 @ [Checkout ''dev''])"
    by (simp add: eval_simps)
  have 3: "git_revParse calm_env [''HEAD''] (?t1 @ [Checkout ''dev'']) =
             (Inr ''abc123'', ?t1 @ [Checkout ''dev'', RevParse [''HEAD'']])"
    by (simp add: eval_simps)
  have 4: "git_merge calm_env [''upstream/'' @ upstreamBranch sample_account]
             (?t1 @ [Checkout ''dev'', RevParse [''HEAD'']]) =
             (Inr (), ?t1 @ [Checkout ''dev'', RevParse [''HEAD''], Merge [''upstream/main'']])"
    by (simp add: eval_simps)
  have 5: "push_r calm_env
             (?t1 @ [Checkout ''dev'', RevParse [''HEAD''], Merge [''upstream/main'']])
             [''origin'', devBranch sample_account] = Inr ()"
    by (simp add: eval_simps)
  from C8_clean_merge_synced[OF 1 2 3 4] 1 5 show ?thesis
    by (auto simp: sample_account_def)
qed

text \<open>
  The claim as stated fails in \<open>push_rejected_env\<close>: the merge returns normally, the push
  is rejected and the outcome has \<^verbatim>\<open>status=error\<close>.
\<close>

theorem C8_push_rejected:
  "merge_r push_rejected_env
     [ExistsSync ''/srv/repositories'', NewGitClient ''/srv/repositories/me-octo-hello'',
      CheckIsRepo, GetRemotes, Fetch [''--all''], Checkout ''dev'',
      RevList [''dev..upstream/main''], Checkout ''dev'', RevParse [''HEAD'']]
     [''upstream/main''] = Inr () \<and>
   syncRepository push_rejected_env ''octo/hello'' sample_account sample_config [] =
     (Inr \<lparr>repository = ''octo/hello'', account = ''me'', success = False, status = ''error'',
           hadConflicts = Some False, usedLLM = Some False, testsStatus = None,
           message = None, error = Some ''Failed to merge: remote rejected''\<rparr>,
      [ExistsSync ''/srv/repositories'', NewGitClient ''/srv/repositories/me-octo-hello'',
       CheckIsRepo, GetRemotes, Fetch [''--all''], Checkout ''dev'',
       RevList [''dev..upstream/main''], Checkout ''dev'', RevParse [''HEAD''],
       Merge [''upstream/main''], Push [''origin'', ''dev'']])"
  by (simp add: eval_simps)

text \<open>
  A push that throws does not always end in an error: in \<open>push_conflict_env\<close> the message
  of its error contains \<^verbatim>\<open>CONFLICTS\<close>, the conflict branch runs, the resolver succeeds
  and a second push is accepted. The outcome is \<^verbatim>\<open>synced\<close> with \<^verbatim>\<open>hadConflicts=true\<close>,
  after two pushes.
\<close>

lemma push_error_taken_for_conflict:
  "syncRepository push_conflict_env ''octo/hello'' sample_account sample_config [] =
     (Inr \<lparr>repository = ''octo/hello'', account = ''me'', success = True, status = ''synced'',
           hadConflicts = Some True, usedLLM = Some True, testsStatus = None,
           message = Some ''Successfully resolved 1 conflicts and pushed changes'',
           error = None\<rparr>,
      [ExistsSync ''/srv/repositories'', NewGitClient ''/srv/repositories/me-octo-hello'',
       CheckIsRepo, GetRemotes, Fetch [''--all''], Checkout ''dev'',
       RevList [''dev..upstream/main''], Checkout ''dev'', RevParse [''HEAD''],
       Merge [''upstream/main''], Push [''origin'', ''dev''], Status,
       ResolveConflicts [''a.txt''], NewOpenAI,
       ReadFile ''/srv/repositories/me-octo-hello/a.txt'',
       GetFileContent ''MERGE_HEAD'' ''a.txt'', GetFileContent ''HEAD'' ''a.txt'',
       GenerateText (conflict_prompt ''a.txt'' ''x'' ''x'' ''y''),
       WriteFile ''/srv/repositories/me-octo-hello/a.txt'' ''z'', Add [''a.txt''],
       Commit ''Automated merge conflict resolution by LLM for 1 file(s)'',
       Push [''origin'', ''dev'']])"
  by (simp add: eval_simps)

subsection \<open>Claim C9: the remotes during initialisation\<close>

lemma initializeRepository_clone_aux:
  "\<exists>rest. snd (initializeRepository env repo acct t) = t @ rest \<and>
          list_ex is_clone rest = (checkIsRepo_r env t = Inr False)"
proof (cases "checkIsRepo_r env t")
  case (Inl e)
  then show ?thesis
    by (simp add: initializeRepository_def io_simps op_defs)
next
  case (Inr isRepo)
  then show ?thesis
    by (cases isRepo)
       (simp_all add: initializeRepository_def io_simps op_defs Let_def split: sum.splits)
qed

lemma initializeRepository_clone:
  "list_ex is_clone (calls_since t (snd (initializeRepository env repo acct t))) =
     (checkIsRepo_r env t = Inr False)"
proof -
  from initializeRepository_clone_aux[of env repo acct t] obtain rest where
    "snd (initializeRepository env repo acct t) = t @ rest"
    "list_ex is_clone rest = (checkIsRepo_r env t = Inr False)" by blast
  then show ?thesis by (simp add: calls_since_def)
qed

lemma initializeRepository_upstream_listed:
  assumes "checkIsRepo_r env t = Inr True"
      and "getRemotes_r env (t @ [CheckIsRepo]) = Inr remotes"
      and "find (\<lambda>remote. remote_name remote = ''upstream'') remotes = Some listed"
  shows "snd (initializeRepository env repo acct t) =
        t @ [CheckIsRepo, GetRemotes, Fetch [''--all'']]"
  using assms
  by (simp add: initializeRepository_def io_simps op_defs split: sum.splits)

lemma initializeRepository_upstream_missing:
  assumes "checkIsRepo_r env t = Inr True"
      and "getRemotes_r env (t @ [CheckIsRepo]) = Inr remotes"
      and "find (\<lambda>remote. remote_name remote = ''upstream'') remotes = None"
  shows "\<exists>rest. snd (initializeRepository env repo acct t) =
        t @ [CheckIsRepo, GetRemotes,
         AddRemote ''upstream''
           (''https://github.com/'' @ js_str (nth_opt (split_on CHR ''/'' repo) 0) @ ''/'' @
            js_str (nth_opt (split_on CHR ''/'' repo) 1) @ ''.git'')] @ rest"
  using assms
  by (simp add: initializeRepository_def io_simps op_defs Let_def split: sum.splits)

text \<open>
  Claim C9. During initialisation, when the working copy exists, the URL of the fork
  remote is to be refreshed (tokens may rotate), an upstream remote whose URL differs from
  the expected one is to be updated, and cloning happens only when the working copy is
  absent. This \<^verbatim>\<open>initializeRepository\<close> clones exactly when \<^verbatim>\<open>checkIsRepo\<close> answers
  false, but for an existing working copy it calls nothing that sets the URL of a remote,
  while the test \<^verbatim>\<open>should update remotes, fetch, and checkout if repo exists\<close> expects
  \<^verbatim>\<open>updateRemoteUrl\<close> for \<^verbatim>\<open>origin\<close> and for \<^verbatim>\<open>upstream\<close>. The run in \<open>calm_env\<close>:
  the working copy exists, the fork remote carries another token than the one of the
  account, and the upstream remote points elsewhere than
  \<^verbatim>\<open>https://github.com/octo/hello.git\<close>. The calls are \<^verbatim>\<open>checkIsRepo\<close>,
  \<^verbatim>\<open>getRemotes\<close> and \<^verbatim>\<open>fetch(['--all'])\<close> and nothing else, and the initialisation
  returns \<^verbatim>\<open>true\<close>.
\<close>

theorem C9_remotes_left_alone:
  "initializeRepository calm_env ''octo/hello'' sample_account [] =
     (Inr True, [CheckIsRepo, GetRemotes, Fetch [''--all'']]) \<and>
   getRemotes_r calm_env [CheckIsRepo] =
     Inr [\<lparr>remote_name = ''origin'', remote_url = ''https://old@github.com/octo/hello.git''\<rparr>,
          \<lparr>remote_name = ''upstream'', remote_url = ''https://example.org/moved.git''\<rparr>] \<and>
   ''https://old@github.com/octo/hello.git'' \<noteq>
     ''https://'' @ token sample_account @ ''@github.com/octo/hello.git'' \<and>
   ''https://example.org/moved.git'' \<noteq> ''https://github.com/octo/hello.git''"
  by (simp add: eval_simps)

subsection \<open>Claim C10: the resolver on an empty list\<close>

text \<open>
  Claim C10 says that \<^verbatim>\<open>resolveConflicts\<close>, invoked with an empty list of conflicted
  files, returns \<^verbatim>\<open>success=true\<close> without a request to the text-generation client and
  without a commit. The function initialises the client before it looks at the list, and
  returns a failure when that throws. So the claim as amended: with an empty list no
  request is sent and no commit is made; the result is \<^verbatim>\<open>success=true\<close> when
  \<^verbatim>\<open>initializeLLMClient\<close> returns, and \<^verbatim>\<open>success=false\<close> with the error
  \<^verbatim>\<open>LLM client initialization failed: \<close> followed by the message when it throws.
\<close>

theorem C10_resolver_empty_list:
  "fst (resolveConflicts env repoDir [] llmConfig t) =
     Inr (case fst (initializeLLMClient env llmConfig (t @ [ResolveConflicts []])) of
            Inl e \<Rightarrow>
              \<lparr>rr_success = False,
               rr_error = Some (''LLM client initialization failed: '' @ e)\<rparr>
          | Inr u \<Rightarrow> \<lparr>rr_success = True, rr_error = None\<rparr>) \<and>
   list_all (\<lambda>c. \<not> is_generateText c \<and> \<not> is_commit c)
     (calls_since t (snd (resolveConflicts env repoDir [] llmConfig t)))"
  by (auto simp: resolveConflicts_def initializeLLMClient_def io_simps op_defs calls_since_def
      split: sum.splits prod.splits option.splits)

theorem C10_resolver_empty_list_witness:
  "resolveConflicts calm_env ''/srv/repositories/me-octo-hello'' [] (Some sample_llm) [] =
     (Inr \<lparr>rr_success = True, rr_error = None\<rparr>, [ResolveConflicts [], NewOpenAI]) \<and>
   list_all (\<lambda>c. \<not> is_generateText c \<and> \<not> is_commit c)
     (calls_since [] (snd (resolveConflicts calm_env ''/srv/repositories/me-octo-hello'' []
                             (Some sample_llm) [])))"
proof -
  have "initializeLLMClient calm_env (Some sample_llm) ([] @ [ResolveConflicts []]) =
      (Inr (), [ResolveConflicts [], NewOpenAI])"
    by (simp add: eval_simps)
  moreover have "snd (resolveConflicts calm_env ''/srv/repositories/me-octo-hello'' []
      (Some sample_llm) []) = [ResolveConflicts [], NewOpenAI]"
    by (simp add: eval_simps)
  ultimately show ?thesis
    using C10_resolver_empty_list[of calm_env "''/srv/repositories/me-octo-hello''"
        "Some sample_llm" "[]"]
    by (simp add: prod_eq_iff)
qed

text \<open>
  The claim as stated fails for a configuration whose provider is not \<^verbatim>\<open>openai\<close>:
  \<^verbatim>\<open>initializeLLMClient\<close> throws and the resolver returns \<^verbatim>\<open>success=false\<close>.
\<close>

theorem C10_client_not_initialised:
  "resolveConflicts calm_env ''/srv/repositories/me-octo-hello'' [] (Some other_provider) [] =
     (Inr \<lparr>rr_success = False,
           rr_error = Some (''LLM client initialization failed: '' @
             ''Unsupported LLM provider: anthropic. Currently, only '' @ [CHR 0x27] @
             ''openai'' @ [CHR 0x27] @ '' is supported.'')\<rparr>,
      [ResolveConflicts []])"
  by (simp add: eval_simps)

end
